theory Spec2Isabelle
  imports Main "HOL-Library.AList"
begin

section \<open>JavaScript values as they cross the HTTP boundary\<close>

text \<open>
  The client is TypeScript; at run time every value that is serialised into a request body
  or read out of a response body is a JavaScript value. \<open>JUndefined\<close> is the value of an
  omitted optional argument or of a property that is not there. Numbers are the integers:
  the client only handles HTTP status codes and participant counts.
\<close>

datatype json =
    JUndefined
  | JNull
  | JBool bool
  | JNum int
  | JStr string
  | JArr "json list"
  | JObj "(string \<times> json) list"

text \<open>Truthiness, as tested by \<open>!x\<close>, \<open>x && y\<close> and \<open>x || y\<close>.\<close>

fun truthy :: "json \<Rightarrow> bool" where
  "truthy JUndefined = False"
| "truthy JNull = False"
| "truthy (JBool b) = b"
| "truthy (JNum n) = (n \<noteq> 0)"
| "truthy (JStr s) = (s \<noteq> [])"
| "truthy (JArr xs) = True"
| "truthy (JObj kvs) = True"

definition js_or :: "json \<Rightarrow> json \<Rightarrow> json" where
  "js_or a b = (if truthy a then a else b)"

text \<open>
  What the program can throw or reject with. \<open>ApiError message status details\<close> is the object
  literal thrown by \<open>ApiClient.handleResponse\<close>; \<open>FetchRejected\<close> is the rejection of
  \<open>fetch\<close> itself; \<open>SyntaxError\<close> is what \<open>response.json()\<close> and \<open>JSON.parse\<close> reject with on a
  text that is not JSON; \<open>TypeError\<close> is a property read on \<open>null\<close> or \<open>undefined\<close>;
  \<open>Error msg\<close> is \<open>new Error(msg)\<close>.
\<close>

datatype failure =
    ApiError json nat json
  | FetchRejected string
  | SyntaxError string
  | TypeError string
  | Error json

text \<open>The \<open>message\<close> property of a thrown value, as read by \<open>err.message\<close>.\<close>

fun failure_message :: "failure \<Rightarrow> json" where
  "failure_message (ApiError m s d) = m"
| "failure_message (FetchRejected m) = JStr m"
| "failure_message (SyntaxError m) = JStr m"
| "failure_message (TypeError m) = JStr m"
| "failure_message (Error m) = m"

text \<open>
  Property read \<open>v.k\<close>: a \<open>TypeError\<close> on \<open>null\<close> and \<open>undefined\<close>, the stored value on an
  object that has the key, \<open>undefined\<close> everywhere else (the keys read by the client,
  \<open>detail\<close>, \<open>message\<close>, \<open>type\<close>, \<open>text\<close>, \<open>token\<close>, \<open>room_id\<close>, \<open>url\<close>, are not properties of
  arrays, strings, numbers or booleans).
\<close>

fun get_prop :: "json \<Rightarrow> string \<Rightarrow> failure + json" where
  "get_prop JUndefined k = Inl (TypeError ''Cannot read properties of undefined'')"
| "get_prop JNull k = Inl (TypeError ''Cannot read properties of null'')"
| "get_prop (JObj kvs) k = Inr (case map_of kvs k of None \<Rightarrow> JUndefined | Some v \<Rightarrow> v)"
| "get_prop v k = Inr JUndefined"

text \<open>
  \<open>JSON.stringify\<close>, up to the concrete syntax: the request body is represented by the JSON
  document that the produced text denotes. A property whose value is \<open>undefined\<close> is left
  out of an object, and \<open>undefined\<close> inside an array is written as \<open>null\<close>.
\<close>

fun stringify :: "json \<Rightarrow> json"
  and stringify_fields :: "(string \<times> json) list \<Rightarrow> (string \<times> json) list"
  and stringify_items :: "json list \<Rightarrow> json list" where
  "stringify (JObj kvs) = JObj (stringify_fields kvs)"
| "stringify (JArr xs) = JArr (stringify_items xs)"
| "stringify JUndefined = JUndefined"
| "stringify JNull = JNull"
| "stringify (JBool b) = JBool b"
| "stringify (JNum n) = JNum n"
| "stringify (JStr s) = JStr s"
| "stringify_fields [] = []"
| "stringify_fields (kv # kvs) =
     (if snd kv = JUndefined then stringify_fields kvs
      else (fst kv, stringify (snd kv)) # stringify_fields kvs)"
| "stringify_items [] = []"
| "stringify_items (x # xs) =
     (if x = JUndefined then JNull else stringify x) # stringify_items xs"

text \<open>Does the JSON object \<open>v\<close> carry the field \<open>k\<close>, and what is stored under it.\<close>

fun field :: "json \<Rightarrow> string \<Rightarrow> json option" where
  "field (JObj kvs) k = map_of kvs k"
| "field v k = None"

section \<open>HTTP requests and responses\<close>

text \<open>
  The second argument of \<open>fetch\<close>: \<open>init_method\<close> is \<open>None\<close> when no method is given (a GET),
  \<open>init_body\<close> is \<open>None\<close> when no body is given.
\<close>

record request_init =
  init_method :: "string option"
  init_headers :: "(string \<times> string) list"
  init_body :: "json option"

record http_request =
  req_url :: string
  req_init :: request_init

text \<open>
  The parts of a \<open>Response\<close> that the client reads. \<open>resp_content_type\<close> is
  \<open>response.headers.get('content-type')\<close> (\<open>None\<close> for \<open>null\<close>); \<open>resp_json\<close> is what
  \<open>response.json()\<close> settles with.
\<close>

record http_response =
  resp_ok :: bool
  resp_status :: nat
  resp_statusText :: string
  resp_content_type :: "string option"
  resp_json :: "failure + json"

text \<open>The network: what \<open>fetch\<close> settles with for a request.\<close>

type_synonym network = "http_request \<Rightarrow> failure + http_response"

text \<open>
  An asynchronous operation of the client is modelled by the list of requests it hands to
  \<open>fetch\<close>, in order, and the value its promise settles with (\<open>Inl\<close> a rejection).
\<close>

type_synonym 'a promise = "http_request list \<times> (failure + 'a)"

section \<open>Strings\<close>

text \<open>A number inside a template literal: its decimal digits.\<close>

definition digit_char :: "nat \<Rightarrow> char" where
  "digit_char d = ''0123456789'' ! d"

function show_nat :: "nat \<Rightarrow> string" where
  "show_nat n = (if n < 10 then [digit_char n] else show_nat (n div 10) @ [digit_char (n mod 10)])"
  by pat_completeness auto
termination
  by (relation "measure (\<lambda>n. n)") auto

declare show_nat.simps [simp del]

text \<open>\<open>s.includes(p)\<close>: \<open>p\<close> occurs in \<open>s\<close> as a contiguous, case-sensitive substring.\<close>

fun starts_with :: "string \<Rightarrow> string \<Rightarrow> bool" where
  "starts_with s [] = True"
| "starts_with [] (p # ps) = False"
| "starts_with (c # cs) (p # ps) = (c = p \<and> starts_with cs ps)"

fun includes_str :: "string \<Rightarrow> string \<Rightarrow> bool" where
  "includes_str [] p = (p = [])"
| "includes_str (c # cs) p = (starts_with (c # cs) p \<or> includes_str cs p)"

section \<open>\<open>lib/api.ts\<close>: the API client\<close>

subsection \<open>\<open>ApiClient.handleResponse\<close>\<close>

definition default_error_message :: "http_response \<Rightarrow> string" where
  "default_error_message response =
     ''HTTP '' @ show_nat (resp_status response) @ '': '' @ resp_statusText response"

text \<open>
  The \<open>try\<close> block of the error branch: it yields the new \<open>(errorMessage, errorDetails)\<close>, or
  throws, in which case the \<open>catch\<close> leaves both variables as they were.
\<close>

definition read_error_body :: "http_response \<Rightarrow> json \<Rightarrow> failure + (json \<times> json)" where
  "read_error_body response errorMessage =
     (case resp_json response of
        Inl e \<Rightarrow> Inl e
      | Inr errorData \<Rightarrow>
          (case get_prop errorData ''detail'' of
             Inl e \<Rightarrow> Inl e
           | Inr detail \<Rightarrow>
               if truthy detail then Inr (detail, errorData)
               else (case get_prop errorData ''message'' of
                       Inl e \<Rightarrow> Inl e
                     | Inr message \<Rightarrow> Inr (js_or message errorMessage, errorData))))"

definition handleResponse :: "http_response \<Rightarrow> failure + json" where
  "handleResponse response =
     (if \<not> resp_ok response then
        (let errorMessage = JStr (default_error_message response);
             errorDetails = JUndefined
         in case read_error_body response errorMessage of
              Inl caught \<Rightarrow> Inl (ApiError errorMessage (resp_status response) errorDetails)
            | Inr (errorMessage', errorDetails') \<Rightarrow>
                Inl (ApiError errorMessage' (resp_status response) errorDetails'))
      else
        (case resp_content_type response of
           None \<Rightarrow> Inr (JObj [])
         | Some contentType \<Rightarrow>
             if contentType \<noteq> [] \<and> includes_str contentType ''application/json''
             then resp_json response
             else Inr (JObj [])))"

subsection \<open>\<open>ApiClient.request\<close>\<close>

text \<open>
  Object spread \<open>{...a, ...b}\<close> on string-keyed objects: the keys of \<open>a\<close> in their order, a key
  of \<open>b\<close> overwriting in place or appended.
\<close>

definition spread :: "(string \<times> 'v) list \<Rightarrow> (string \<times> 'v) list \<Rightarrow> (string \<times> 'v) list" where
  "spread a b = fold (\<lambda>kv acc. AList.update (fst kv) (snd kv) acc) b a"

definition defaultHeaders :: "(string \<times> string) list" where
  "defaultHeaders = [(''Content-Type'', ''application/json'')]"

text \<open>
  One call of \<open>fetch\<close>; the \<open>catch\<close> of \<open>request\<close> logs and rethrows, so a rejection of \<open>fetch\<close>
  is the rejection of \<open>request\<close>, and so is one of \<open>handleResponse\<close>.
\<close>

definition request :: "string \<Rightarrow> network \<Rightarrow> string \<Rightarrow> request_init \<Rightarrow> json promise" where
  "request baseUrl net endpoint options =
     (let url = baseUrl @ endpoint;
          config = options\<lparr>init_headers := spread defaultHeaders (init_headers options)\<rparr>;
          req = \<lparr>req_url = url, req_init = config\<rparr>
      in ([req],
          case net req of
            Inl error \<Rightarrow> Inl error
          | Inr response \<Rightarrow> handleResponse response))"

text \<open>The \<open>options\<close> literals that the methods of the client pass.\<close>

definition no_options :: request_init where
  "no_options = \<lparr>init_method = None, init_headers = [], init_body = None\<rparr>"

definition with_method :: "string \<Rightarrow> request_init" where
  "with_method m = \<lparr>init_method = Some m, init_headers = [], init_body = None\<rparr>"

definition with_body :: "string \<Rightarrow> json \<Rightarrow> request_init" where
  "with_body m b = \<lparr>init_method = Some m, init_headers = [], init_body = Some (stringify b)\<rparr>"

subsection \<open>Room management\<close>

text \<open>An optional property of an argument object: \<open>undefined\<close> when omitted.\<close>

fun opt_str :: "string option \<Rightarrow> json" where
  "opt_str None = JUndefined"
| "opt_str (Some s) = JStr s"

fun opt_num :: "int option \<Rightarrow> json" where
  "opt_num None = JUndefined"
| "opt_num (Some n) = JNum n"

record create_room_data =
  cr_room_name :: json
  cr_room_type :: json
  cr_max_participants :: json

definition createRoom :: "string \<Rightarrow> network \<Rightarrow> create_room_data \<Rightarrow> json promise" where
  "createRoom baseUrl net data =
     request baseUrl net ''/api/rooms/create''
       (with_body ''POST''
          (JObj [(''room_name'', cr_room_name data),
                 (''room_type'', cr_room_type data),
                 (''max_participants'', cr_max_participants data)]))"

definition listRooms :: "string \<Rightarrow> network \<Rightarrow> json promise" where
  "listRooms baseUrl net = request baseUrl net ''/api/rooms/'' no_options"

text \<open>
  \<open>rooms.find(room => room.room_name === roomName && room.is_active)\<close>: the first element
  that satisfies the predicate, \<open>undefined\<close> when there is none. \<open>find\<close> is a method of arrays
  only, and the predicate reads two properties of each element.
\<close>

definition room_matches :: "string \<Rightarrow> json \<Rightarrow> failure + bool" where
  "room_matches roomName room =
     (case get_prop room ''room_name'' of
        Inl e \<Rightarrow> Inl e
      | Inr n \<Rightarrow>
          if n \<noteq> JStr roomName then Inr False
          else (case get_prop room ''is_active'' of
                  Inl e \<Rightarrow> Inl e
                | Inr a \<Rightarrow> Inr (truthy a)))"

fun array_find :: "(json \<Rightarrow> failure + bool) \<Rightarrow> json list \<Rightarrow> failure + json" where
  "array_find p [] = Inr JUndefined"
| "array_find p (x # xs) =
     (case p x of
        Inl e \<Rightarrow> Inl e
      | Inr True \<Rightarrow> Inr x
      | Inr False \<Rightarrow> array_find p xs)"

definition find_in_rooms :: "string \<Rightarrow> json \<Rightarrow> failure + json" where
  "find_in_rooms roomName rooms =
     (case rooms of
        JArr xs \<Rightarrow> array_find (room_matches roomName) xs
      | JUndefined \<Rightarrow> Inl (TypeError ''Cannot read properties of undefined'')
      | JNull \<Rightarrow> Inl (TypeError ''Cannot read properties of null'')
      | _ \<Rightarrow> Inl (TypeError ''rooms.find is not a function''))"

definition findRoomByName :: "string \<Rightarrow> network \<Rightarrow> string \<Rightarrow> json promise" where
  "findRoomByName baseUrl net roomName =
     (case listRooms baseUrl net of
        (reqs, Inl e) \<Rightarrow> (reqs, Inl e)
      | (reqs, Inr rooms) \<Rightarrow> (reqs, find_in_rooms roomName rooms))"

record transfer_data =
  td_targetAgentId :: json
  td_roomId :: json
  td_callSummary :: json

definition transferCall :: "string \<Rightarrow> network \<Rightarrow> transfer_data \<Rightarrow> json promise" where
  "transferCall baseUrl net data =
     request baseUrl net ''/api/rooms/transfer''
       (with_body ''POST''
          (JObj [(''room_id'', td_roomId data),
                 (''target_agent_id'', td_targetAgentId data),
                 (''call_summary'', td_callSummary data)]))"

definition completeConsultation :: "string \<Rightarrow> network \<Rightarrow> string \<Rightarrow> string \<Rightarrow> json promise" where
  "completeConsultation baseUrl net transferId agentIdentity =
     request baseUrl net (''/api/rooms/transfer/'' @ transferId @ ''/complete-consultation'')
       (with_body ''POST'' (JObj [(''agent_identity'', JStr agentIdentity)]))"

subsection \<open>Participant management\<close>

record join_token_data =
  jt_room_id :: json
  jt_identity :: json
  jt_name :: json
  jt_role :: json
  jt_metadata :: json

definition join_token_object :: "join_token_data \<Rightarrow> json" where
  "join_token_object data =
     JObj [(''room_id'', jt_room_id data),
           (''identity'', jt_identity data),
           (''name'', jt_name data),
           (''role'', jt_role data),
           (''metadata'', jt_metadata data)]"

definition generateJoinToken :: "string \<Rightarrow> network \<Rightarrow> join_token_data \<Rightarrow> json promise" where
  "generateJoinToken baseUrl net data =
     request baseUrl net ''/api/participants/token''
       (with_body ''POST'' (join_token_object data))"

definition removeParticipant :: "string \<Rightarrow> network \<Rightarrow> string \<Rightarrow> string \<Rightarrow> json promise" where
  "removeParticipant baseUrl net identity roomId =
     request baseUrl net (''/api/participants/'' @ identity @ ''?room_id='' @ roomId)
       (with_method ''DELETE'')"

subsection \<open>Call management\<close>

definition healthCheck :: "string \<Rightarrow> network \<Rightarrow> json promise" where
  "healthCheck baseUrl net = request baseUrl net ''/api/health'' no_options"

definition generateCallSummary :: "string \<Rightarrow> network \<Rightarrow> string \<Rightarrow> json promise" where
  "generateCallSummary baseUrl net callId =
     request baseUrl net (''/api/calls/'' @ callId @ ''/summary'') (with_method ''POST'')"

definition getCallTranscript :: "string \<Rightarrow> network \<Rightarrow> string \<Rightarrow> json promise" where
  "getCallTranscript baseUrl net callId =
     request baseUrl net (''/api/calls/'' @ callId @ ''/transcript'') no_options"

text \<open>\<open>hold: boolean = true\<close>: the default is taken when the argument is omitted.\<close>

definition holdCall :: "string \<Rightarrow> network \<Rightarrow> string \<Rightarrow> bool option \<Rightarrow> json promise" where
  "holdCall baseUrl net callId hold_arg =
     (let hold = (case hold_arg of None \<Rightarrow> True | Some h \<Rightarrow> h)
      in request baseUrl net (''/api/calls/'' @ callId @ ''/hold'')
           (with_body ''POST'' (JObj [(''hold'', JBool hold)])))"

subsection \<open>The convenience wrappers \<open>api.*\<close>\<close>

text \<open>
  The \<open>options\<close> argument of a wrapper is \<open>None\<close> when omitted; \<open>options?.k\<close> is then
  \<open>undefined\<close>, as it is when the object is given without the property.
\<close>

record create_options =
  co_roomType :: "string option"
  co_maxParticipants :: "int option"

definition api_rooms_create :: "string \<Rightarrow> network \<Rightarrow> string \<Rightarrow> create_options option \<Rightarrow> json promise" where
  "api_rooms_create baseUrl net roomName options =
     createRoom baseUrl net
       \<lparr>cr_room_name = JStr roomName,
        cr_room_type =
          js_or (case options of None \<Rightarrow> JUndefined | Some opts \<Rightarrow> opt_str (co_roomType opts))
                (JStr ''call''),
        cr_max_participants =
          js_or (case options of None \<Rightarrow> JUndefined | Some opts \<Rightarrow> opt_num (co_maxParticipants opts))
                (JNum 10)\<rparr>"

definition api_rooms_transfer :: "string \<Rightarrow> network \<Rightarrow> json \<Rightarrow> json \<Rightarrow> json \<Rightarrow> json promise" where
  "api_rooms_transfer baseUrl net targetAgentId roomId callSummary =
     transferCall baseUrl net
       \<lparr>td_targetAgentId = targetAgentId, td_roomId = roomId, td_callSummary = callSummary\<rparr>"

record token_options =
  to_role :: "string option"
  to_metadata :: json

definition api_participants_getToken ::
  "string \<Rightarrow> network \<Rightarrow> json \<Rightarrow> json \<Rightarrow> json \<Rightarrow> token_options option \<Rightarrow> json promise" where
  "api_participants_getToken baseUrl net roomId identity name options =
     generateJoinToken baseUrl net
       \<lparr>jt_room_id = roomId,
        jt_identity = identity,
        jt_name = name,
        jt_role =
          js_or (case options of None \<Rightarrow> JUndefined | Some opts \<Rightarrow> opt_str (to_role opts))
                (JStr ''caller''),
        jt_metadata = (case options of None \<Rightarrow> JUndefined | Some opts \<Rightarrow> to_metadata opts)\<rparr>"

definition api_calls_hold :: "string \<Rightarrow> network \<Rightarrow> string \<Rightarrow> bool option \<Rightarrow> json promise" where
  "api_calls_hold baseUrl net callId hold_arg =
     (let hold = (case hold_arg of None \<Rightarrow> True | Some h \<Rightarrow> h)
      in holdCall baseUrl net callId (Some hold))"

section \<open>\<open>lib/livekit.ts\<close>: the standalone request functions and the data handler\<close>

subsection \<open>Standalone functions calling \<open>fetch\<close> directly\<close>

definition json_headers :: "(string \<times> string) list" where
  "json_headers = [(''Content-Type'', ''application/json'')]"

definition post_json :: "string \<Rightarrow> json \<Rightarrow> http_request" where
  "post_json url b =
     \<lparr>req_url = url,
      req_init = \<lparr>init_method = Some ''POST'', init_headers = json_headers,
                  init_body = Some (stringify b)\<rparr>\<rparr>"

definition getJoinToken :: "network \<Rightarrow> json \<Rightarrow> json \<Rightarrow> json \<Rightarrow> json promise" where
  "getJoinToken net roomId identity name =
     (let req = post_json ''/api/participants/token''
                  (JObj [(''roomId'', roomId), (''identity'', identity), (''name'', name)])
      in ([req],
          case net req of
            Inl e \<Rightarrow> Inl e
          | Inr response \<Rightarrow>
              if \<not> resp_ok response then Inl (Error (JStr ''Failed to get join token''))
              else (case resp_json response of
                      Inl e \<Rightarrow> Inl e
                    | Inr data \<Rightarrow> get_prop data ''token'')))"

text \<open>The interface \<open>TransferRequest\<close>; \<open>callSummary\<close> is \<open>undefined\<close> when omitted.\<close>

record TransferRequest =
  tr_targetAgentId :: json
  tr_callSummary :: json
  tr_roomId :: json

definition transfer_request_object :: "TransferRequest \<Rightarrow> json" where
  "transfer_request_object r =
     JObj [(''targetAgentId'', tr_targetAgentId r),
           (''callSummary'', tr_callSummary r),
           (''roomId'', tr_roomId r)]"

definition initiateTransfer :: "network \<Rightarrow> TransferRequest \<Rightarrow> json promise" where
  "initiateTransfer net r =
     (let req = post_json ''/api/rooms/transfer'' (transfer_request_object r)
      in ([req],
          case net req of
            Inl e \<Rightarrow> Inl e
          | Inr response \<Rightarrow>
              if \<not> resp_ok response then Inl (Error (JStr ''Failed to initiate transfer''))
              else resp_json response))"

subsection \<open>\<open>LiveKitManager\<close>: the handler of \<open>RoomEvent.DataReceived\<close>\<close>

text \<open>
  A payload is a \<open>Uint8Array\<close>. \<open>JSON.parse(new TextDecoder().decode(payload))\<close> belongs to the
  platform and is a parameter of the handler: it yields the parsed value or throws. Of the
  sender only \<open>identity\<close> is read. The registered transcript callback is \<open>None\<close> when
  \<open>onTranscript\<close> was never called; when it runs it either returns (\<open>None\<close>) or throws.
\<close>

type_synonym bytes = "char list"

type_synonym decoder = "bytes \<Rightarrow> failure + json"

record participant =
  p_identity :: string

type_synonym transcript_callback = "json \<Rightarrow> string \<Rightarrow> failure option"

text \<open>\<open>participant?.identity || 'Unknown'\<close>\<close>

definition speaker_of :: "participant option \<Rightarrow> string" where
  "speaker_of sender =
     (case sender of
        None \<Rightarrow> ''Unknown''
      | Some p \<Rightarrow> if p_identity p \<noteq> [] then p_identity p else ''Unknown'')"

text \<open>
  The body of the \<open>try\<close>: the invocations of the transcript callback it makes, and the
  exception that ends it, if any.
\<close>

definition dataReceived_try ::
  "decoder \<Rightarrow> transcript_callback option \<Rightarrow> bytes \<Rightarrow> participant option
     \<Rightarrow> (json \<times> string) list \<times> failure option" where
  "dataReceived_try parse onTranscriptUpdate payload sender =
     (case parse payload of
        Inl e \<Rightarrow> ([], Some e)
      | Inr data \<Rightarrow>
          (case get_prop data ''type'' of
             Inl e \<Rightarrow> ([], Some e)
           | Inr ty \<Rightarrow>
               if ty = JStr ''transcript'' then
                 (case onTranscriptUpdate of
                    None \<Rightarrow> ([], None)
                  | Some callback \<Rightarrow>
                      (case get_prop data ''text'' of
                         Inl e \<Rightarrow> ([], Some e)
                       | Inr text \<Rightarrow>
                           ([(text, speaker_of sender)], callback text (speaker_of sender))))
               else ([], None)))"

text \<open>
  The handler: what it called, what it wrote with \<open>console.error\<close>, and what it let
  escape to the event emitter.
\<close>

record handler_outcome =
  ho_calls :: "(json \<times> string) list"
  ho_logged :: "failure list"
  ho_thrown :: "failure option"

definition dataReceived ::
  "decoder \<Rightarrow> transcript_callback option \<Rightarrow> bytes \<Rightarrow> participant option \<Rightarrow> handler_outcome" where
  "dataReceived parse onTranscriptUpdate payload sender =
     (case dataReceived_try parse onTranscriptUpdate payload sender of
        (calls, None) \<Rightarrow> \<lparr>ho_calls = calls, ho_logged = [], ho_thrown = None\<rparr>
      | (calls, Some error) \<Rightarrow> \<lparr>ho_calls = calls, ho_logged = [error], ho_thrown = None\<rparr>)"

section \<open>\<open>hooks/useLiveKit.ts\<close>: the state of the hook and its operations\<close>

text \<open>
  A transcript entry \<open>{speaker, text, timestamp}\<close>. The text of an entry made from a data
  message is \<open>data.text\<close>, whatever the sender put there. The timestamp is the reading of
  the clock (\<open>new Date()\<close>) when the entry is made, a parameter of each operation.
\<close>

record entry =
  e_speaker :: string
  e_text :: json
  e_timestamp :: nat

text \<open>
  The \<open>useState\<close> cells of the hook that the operations below touch, and whether
  \<open>managerRef.current\<close> is set.
\<close>

record hook_state =
  hs_isConnecting :: bool
  hs_error :: json
  hs_actualRoomId :: json
  hs_transcript :: "entry list"
  hs_isTransferring :: bool
  hs_transferError :: json
  hs_manager :: bool

definition initial_state :: hook_state where
  "initial_state =
     \<lparr>hs_isConnecting = False, hs_error = JNull, hs_actualRoomId = JNull, hs_transcript = [],
      hs_isTransferring = False, hs_transferError = JNull, hs_manager = False\<rparr>"

subsection \<open>Transcript\<close>







text \<open>\<open>err instanceof Error\<close>: the object literal thrown by \<open>handleResponse\<close> is not one.\<close>

fun instanceof_Error :: "failure \<Rightarrow> bool" where
  "instanceof_Error (ApiError m s d) = False"
| "instanceof_Error e = True"


subsection \<open>Connecting\<close>

text \<open>\<open>connect\<close>; \<open>manager.connect(config)\<close> is a parameter in the same way.\<close>

definition connect :: "(json \<Rightarrow> json \<Rightarrow> failure option) \<Rightarrow> json \<Rightarrow> json \<Rightarrow> hook_state \<Rightarrow> hook_state" where
  "connect manager_connect url token st =
     (if \<not> hs_manager st then st
      else (let st1 = st\<lparr>hs_isConnecting := True, hs_error := JNull\<rparr>
            in case manager_connect url token of
                 None \<Rightarrow> st1
               | Some err \<Rightarrow>
                   st1\<lparr>hs_error := (if instanceof_Error err then failure_message err
                                     else JStr ''Connection failed''),
                       hs_isConnecting := False\<rparr>))"

text \<open>The body of the \<open>try\<close> of \<open>handleAutoConnect\<close> after the token request has settled.\<close>

definition after_token ::
  "(json \<Rightarrow> json \<Rightarrow> failure option) \<Rightarrow> json \<Rightarrow> hook_state \<Rightarrow> failure + hook_state" where
  "after_token manager_connect response st =
     (case get_prop response ''room_id'' of
        Inl e \<Rightarrow> Inl e
      | Inr room_id \<Rightarrow>
          (case get_prop response ''url'' of
             Inl e \<Rightarrow> Inl e
           | Inr url \<Rightarrow>
               (case get_prop response ''token'' of
                  Inl e \<Rightarrow> Inl e
                | Inr token \<Rightarrow>
                    Inr (connect manager_connect url token (st\<lparr>hs_actualRoomId := room_id\<rparr>)))))"

definition handleAutoConnect ::
  "string \<Rightarrow> network \<Rightarrow> (json \<Rightarrow> json \<Rightarrow> failure option)
     \<Rightarrow> string option \<Rightarrow> string option \<Rightarrow> string option \<Rightarrow> hook_state
     \<Rightarrow> http_request list \<times> hook_state" where
  "handleAutoConnect baseUrl net manager_connect roomId identity name st =
     (if \<not> truthy (opt_str roomId) \<or> \<not> truthy (opt_str identity) \<or> \<not> truthy (opt_str name)
      then ([], st)
      else
        (let st1 = st\<lparr>hs_isConnecting := True, hs_error := JNull\<rparr>;
             called = api_participants_getToken baseUrl net
                        (opt_str roomId) (opt_str identity) (opt_str name) None;
             failed = (\<lambda>err s. s\<lparr>hs_error := js_or (failure_message err) (JStr ''Failed to auto-connect''),
                                  hs_isConnecting := False\<rparr>)
         in case snd called of
              Inl err \<Rightarrow> (fst called, failed err st1)
            | Inr response \<Rightarrow>
                (case after_token manager_connect response st1 of
                   Inl err \<Rightarrow> (fst called, failed err st1)
                 | Inr st2 \<Rightarrow> (fst called, st2))))"

subsection \<open>Transfer\<close>

text \<open>
  \<open>initiateTransfer\<close> of the hook: the requests issued, what the promise settles with, and
  the state afterwards.
\<close>

definition hook_initiateTransfer ::
  "string \<Rightarrow> network \<Rightarrow> json \<Rightarrow> hook_state \<Rightarrow> http_request list \<times> (failure + json) \<times> hook_state" where
  "hook_initiateTransfer baseUrl net targetAgentId st =
     (if \<not> hs_manager st \<or> \<not> truthy (hs_actualRoomId st)
      then ([], Inl (Error (JStr ''Not connected to a room'')), st)
      else
        (let st1 = st\<lparr>hs_isTransferring := True, hs_transferError := JNull\<rparr>;
             called = api_rooms_transfer baseUrl net targetAgentId (hs_actualRoomId st) JUndefined
         in case snd called of
              Inr response \<Rightarrow> (fst called, Inr response, st1\<lparr>hs_isTransferring := False\<rparr>)
            | Inl err \<Rightarrow>
                (let errorMessage = js_or (failure_message err) (JStr ''Transfer failed'')
                 in (fst called, Inl (Error errorMessage),
                     st1\<lparr>hs_transferError := errorMessage, hs_isTransferring := False\<rparr>))))"

section \<open>The transfer registry of the backend\<close>

text \<open>
  Modelled from the spec: the states of the transfer state machine (the table of its
  component design). The backend that implements it is not among the sources.
\<close>

datatype transfer_state =
    Active
  | ConsultPending
  | ConsultReady
  | SummaryPending
  | SummaryReady
  | SummaryUnavailable
  | Consulting
  | Completing
  | Completed
  | Cancelled
  | Failed

text \<open>Modelled from the spec: the terminal states are Completed, Failed and Cancelled.\<close>

fun terminal :: "transfer_state \<Rightarrow> bool" where
  "terminal Completed = True"
| "terminal Cancelled = True"
| "terminal Failed = True"
| "terminal s = False"

text \<open>
  Modelled from the spec: the column of next states of the table; in addition any step
  error takes a transfer that is under way to Failed, and a cancellation is honoured from
  ConsultPending through Consulting.
\<close>

fun next_states :: "transfer_state \<Rightarrow> transfer_state list" where
  "next_states Active = [ConsultPending]"
| "next_states ConsultPending = [ConsultReady, Failed, Cancelled]"
| "next_states ConsultReady = [SummaryPending, Failed, Cancelled]"
| "next_states SummaryPending = [SummaryReady, SummaryUnavailable, Failed, Cancelled]"
| "next_states SummaryReady = [Consulting, Failed, Cancelled]"
| "next_states SummaryUnavailable = [Consulting, Failed, Cancelled]"
| "next_states Consulting = [Completing, Cancelled, Failed]"
| "next_states Completing = [Completed, Failed]"
| "next_states Completed = []"
| "next_states Cancelled = []"
| "next_states Failed = []"

text \<open>
  Modelled from the spec: the Transfer record of the data model, with the fields that the
  admission rule reads and writes (identifier, source room, the two agents, state).
\<close>

record transfer =
  t_id :: nat
  t_source_room :: string
  t_initiator :: string
  t_target :: string
  t_state :: transfer_state

text \<open>
  Modelled from the spec: the errors of the taxonomy that the state machine itself
  reports.
\<close>

datatype transfer_error = TransferConflict | TooLateToCancel

text \<open>
  Modelled from the spec: the transfers of a source room that are in a non-terminal
  state, in a registry that is the list of all Transfer records.
\<close>

definition in_flight :: "transfer list \<Rightarrow> string \<Rightarrow> transfer list" where
  "in_flight reg room = filter (\<lambda>t. t_source_room t = room \<and> \<not> terminal (t_state t)) reg"

text \<open>
  Modelled from the spec: \<open>initiate()\<close>. Entry to ConsultPending is rejected with
  TransferConflict if the source room already has a non-terminal Transfer; otherwise a
  Transfer with a new identifier is recorded in ConsultPending and its identifier returned.
  The check and the insertion are one step: all operations on a room are serialised.
\<close>

definition initiate ::
  "transfer list \<Rightarrow> string \<Rightarrow> string \<Rightarrow> string \<Rightarrow> transfer_error + (nat \<times> transfer list)" where
  "initiate reg room initiator target =
     (if in_flight reg room \<noteq> [] then Inl TransferConflict
      else Inr (length reg,
                reg @ [\<lparr>t_id = length reg, t_source_room = room, t_initiator = initiator,
                         t_target = target, t_state = ConsultPending\<rparr>]))"

text \<open>
  Modelled from the spec: a transition of the Transfer with identifier \<open>tid\<close> to the state
  \<open>s\<close>, which happens only when the table allows it from the current state.
\<close>

definition advance :: "transfer list \<Rightarrow> nat \<Rightarrow> transfer_state \<Rightarrow> transfer list" where
  "advance reg tid s =
     map (\<lambda>t. if t_id t = tid \<and> s \<in> set (next_states (t_state t)) then t\<lparr>t_state := s\<rparr> else t) reg"

text \<open>
  Modelled from the spec: the operations that reach the registry, one at a time, since all
  operations on a room or on a transfer are serialised.
\<close>

datatype registry_op =
    Initiate string string string
  | Advance nat transfer_state

text \<open>
  Modelled from the spec: the registry after one operation; a rejected \<open>initiate()\<close> leaves
  it as it is.
\<close>

fun apply_op :: "transfer list \<Rightarrow> registry_op \<Rightarrow> transfer list" where
  "apply_op reg (Initiate room initiator target) =
     (case initiate reg room initiator target of
        Inl e \<Rightarrow> reg
      | Inr (tid, reg') \<Rightarrow> reg')"
| "apply_op reg (Advance tid s) = advance reg tid s"

text \<open>
  Modelled from the spec: the registry after a sequence of operations, starting with no
  Transfer at all.
\<close>

definition run_ops :: "registry_op list \<Rightarrow> transfer list" where
  "run_ops ops = foldl apply_op [] ops"

text \<open>
  Modelled from the spec: \<open>initiate()\<close> calls that race on one room. Being serialised,
  they reach the registry one after the other in some order; the list is that order, one
  pair of agents for each call, and the result is what each call returns.
\<close>

fun race :: "transfer list \<Rightarrow> string \<Rightarrow> (string \<times> string) list \<Rightarrow> (transfer_error + nat) list" where
  "race reg room [] = []"
| "race reg room (c # cs) =
     (case initiate reg room (fst c) (snd c) of
        Inl e \<Rightarrow> Inl e # race reg room cs
      | Inr (tid, reg') \<Rightarrow> Inr tid # race reg' room cs)"

section \<open>Notions used in the statements\<close>

text \<open>
  The request that \<open>ApiClient.request\<close> hands to \<open>fetch\<close> when the caller passes no headers
  of its own: the URL, the method, the default header and the body.
\<close>

definition issued :: "string \<Rightarrow> string option \<Rightarrow> json option \<Rightarrow> http_request" where
  "issued url m b =
     \<lparr>req_url = url,
      req_init = \<lparr>init_method = m, init_headers = [(''Content-Type'', ''application/json'')],
                  init_body = b\<rparr>\<rparr>"

text \<open>A content type that \<open>handleResponse\<close> takes for JSON.\<close>

definition json_content_type :: "string option \<Rightarrow> bool" where
  "json_content_type ct =
     (case ct of None \<Rightarrow> False | Some c \<Rightarrow> includes_str c ''application/json'')"

text \<open>A successful response that carries the JSON value \<open>v\<close>.\<close>

definition json_success :: "http_response \<Rightarrow> json \<Rightarrow> bool" where
  "json_success response v =
     (resp_ok response \<and> json_content_type (resp_content_type response) \<and>
      resp_json response = Inr v)"

definition ok_json :: "json \<Rightarrow> http_response" where
  "ok_json v =
     \<lparr>resp_ok = True, resp_status = 200, resp_statusText = ''OK'',
      resp_content_type = Some ''application/json'', resp_json = Inr v\<rparr>"

text \<open>
  A room as the cast in \<open>findRoomByName\<close> declares it, as far as the function reads it: an
  object whose \<open>room_name\<close> is a string and whose \<open>is_active\<close> is a boolean.
\<close>

fun is_room :: "json \<Rightarrow> bool" where
  "is_room (JObj kvs) =
     ((case map_of kvs ''room_name'' of Some (JStr s) \<Rightarrow> True | _ \<Rightarrow> False) \<and>
      (case map_of kvs ''is_active'' of Some (JBool b) \<Rightarrow> True | _ \<Rightarrow> False))"
| "is_room v = False"

text \<open>The room \<open>r\<close> has exactly the name \<open>n\<close> and is active.\<close>

definition is_match :: "string \<Rightarrow> json \<Rightarrow> bool" where
  "is_match n r =
     (field r ''room_name'' = Some (JStr n) \<and> field r ''is_active'' = Some (JBool True))"

text \<open>
  The message of the error as the specification words it: taken from the field \<open>detail\<close> of
  the response body, else from its field \<open>message\<close>, else the default string; a field is
  taken when the body is JSON, has the field, and the value there is truthy.
\<close>

definition usable_field :: "http_response \<Rightarrow> string \<Rightarrow> json option" where
  "usable_field response k =
     (case resp_json response of
        Inl e \<Rightarrow> None
      | Inr b \<Rightarrow> (case field b k of
                    None \<Rightarrow> None
                  | Some v \<Rightarrow> if truthy v then Some v else None))"

definition spec_error_message :: "http_response \<Rightarrow> json" where
  "spec_error_message response =
     (case usable_field response ''detail'' of
        Some d \<Rightarrow> d
      | None \<Rightarrow>
          (case usable_field response ''message'' of
             Some m \<Rightarrow> m
           | None \<Rightarrow> JStr (''HTTP '' @ show_nat (resp_status response) @ '': '' @
                            resp_statusText response)))"

text \<open>The bodies of the requests that an operation issued.\<close>

definition bodies :: "'a promise \<Rightarrow> json option list" where
  "bodies p = map (\<lambda>r. init_body (req_init r)) (fst p)"

text \<open>Sample data: three rooms, two of them named \<open>call-123\<close>, the first of these inactive.\<close>

definition sample_rooms :: "json list" where
  "sample_rooms =
     [JObj [(''room_id'', JStr ''r1''), (''room_name'', JStr ''call-123''), (''is_active'', JBool False)],
      JObj [(''room_id'', JStr ''r2''), (''room_name'', JStr ''call-123''), (''is_active'', JBool True)],
      JObj [(''room_id'', JStr ''r3''), (''room_name'', JStr ''call-456''), (''is_active'', JBool True)]]"

text \<open>Sample networks: one answers every request with the same response, one is down.\<close>

definition always :: "http_response \<Rightarrow> network" where
  "always response = (\<lambda>req. Inr response)"

definition offline :: network where
  "offline = (\<lambda>req. Inl (FetchRejected ''Failed to fetch''))"

definition sample_conflict :: http_response where
  "sample_conflict =
     \<lparr>resp_ok = False, resp_status = 409, resp_statusText = ''Conflict'',
      resp_content_type = Some ''application/json'',
      resp_json = Inr (JObj [(''detail'', JStr ''Transfer already in progress'')])\<rparr>"

definition sample_no_content :: http_response where
  "sample_no_content =
     \<lparr>resp_ok = True, resp_status = 204, resp_statusText = ''No Content'',
      resp_content_type = None, resp_json = Inl (SyntaxError ''Unexpected end of JSON input'')\<rparr>"

text \<open>
  The field \<open>k\<close> of the JSON body of the one request that an operation issued.
\<close>

definition sent_field :: "'a promise \<Rightarrow> string \<Rightarrow> json option" where
  "sent_field p k = (case bodies p of [Some b] \<Rightarrow> field b k | _ \<Rightarrow> None)"

text \<open>What the caller of a wrapper gave for an optional property of \<open>options\<close>.\<close>

definition given_roomType :: "create_options option \<Rightarrow> string option" where
  "given_roomType options = (case options of None \<Rightarrow> None | Some opts \<Rightarrow> co_roomType opts)"

definition given_maxParticipants :: "create_options option \<Rightarrow> int option" where
  "given_maxParticipants options =
     (case options of None \<Rightarrow> None | Some opts \<Rightarrow> co_maxParticipants opts)"

definition given_role :: "token_options option \<Rightarrow> string option" where
  "given_role options = (case options of None \<Rightarrow> None | Some opts \<Rightarrow> to_role opts)"

text \<open>The public methods of \<open>ApiClient\<close>, to speak about every one of them.\<close>

datatype api_call =
    HealthCheck
  | CreateRoom create_room_data
  | ListRooms
  | FindRoomByName string
  | TransferCall transfer_data
  | CompleteConsultation string string
  | GenerateJoinToken join_token_data
  | RemoveParticipant string string
  | GenerateCallSummary string
  | GetCallTranscript string
  | HoldCall string "bool option"

fun perform :: "string \<Rightarrow> network \<Rightarrow> api_call \<Rightarrow> json promise" where
  "perform baseUrl net HealthCheck = healthCheck baseUrl net"
| "perform baseUrl net (CreateRoom data) = createRoom baseUrl net data"
| "perform baseUrl net ListRooms = listRooms baseUrl net"
| "perform baseUrl net (FindRoomByName roomName) = findRoomByName baseUrl net roomName"
| "perform baseUrl net (TransferCall data) = transferCall baseUrl net data"
| "perform baseUrl net (CompleteConsultation transferId agentIdentity) =
     completeConsultation baseUrl net transferId agentIdentity"
| "perform baseUrl net (GenerateJoinToken data) = generateJoinToken baseUrl net data"
| "perform baseUrl net (RemoveParticipant identity roomId) =
     removeParticipant baseUrl net identity roomId"
| "perform baseUrl net (GenerateCallSummary callId) = generateCallSummary baseUrl net callId"
| "perform baseUrl net (GetCallTranscript callId) = getCallTranscript baseUrl net callId"
| "perform baseUrl net (HoldCall callId hold_arg) = holdCall baseUrl net callId hold_arg"

definition sample_unavailable :: http_response where
  "sample_unavailable =
     \<lparr>resp_ok = False, resp_status = 503, resp_statusText = ''Service Unavailable'',
      resp_content_type = Some ''text/html'',
      resp_json = Inl (SyntaxError ''Unexpected token < in JSON'')\<rparr>"

definition sample_transfer :: transfer_data where
  "sample_transfer =
     \<lparr>td_targetAgentId = JStr ''agent-b'', td_roomId = JStr ''r2'', td_callSummary = JUndefined\<rparr>"

text \<open>A hook that has its manager and has joined the room \<open>r2\<close>.\<close>

definition joined_state :: hook_state where
  "joined_state = initial_state\<lparr>hs_manager := True, hs_actualRoomId := JStr ''r2''\<rparr>"

definition sample_transfer_response :: json where
  "sample_transfer_response =
     JObj [(''consultRoomId'', JStr ''consult-1''), (''consultToken'', JStr ''tok''),
           (''transferId'', JStr ''t1''), (''status'', JStr ''consult_ready'')]"

text \<open>
  Sample payloads, and a decoder that is right on them: a transcript message, a chat message,
  the JSON text \<open>null\<close>, and bytes that are not JSON.
\<close>

definition transcript_payload :: bytes where
  \<open>transcript_payload = ''{"type":"transcript","text":"hello"}''\<close>

definition chat_payload :: bytes where
  \<open>chat_payload = ''{"type":"chat","message":"hi"}''\<close>

definition null_payload :: bytes where
  \<open>null_payload = ''null''\<close>

definition broken_payload :: bytes where
  \<open>broken_payload = ''{"type":''\<close>

definition sample_parse :: decoder where
  "sample_parse payload =
     (if payload = transcript_payload
      then Inr (JObj [(''type'', JStr ''transcript''), (''text'', JStr ''hello'')])
      else if payload = chat_payload
      then Inr (JObj [(''type'', JStr ''chat''), (''message'', JStr ''hi'')])
      else if payload = null_payload then Inr JNull
      else Inl (SyntaxError ''Unexpected end of JSON input''))"

text \<open>A transcript callback that returns normally.\<close>

definition quiet_callback :: transcript_callback where
  "quiet_callback txt spk = None"










text \<open>A \<open>manager.connect\<close> that always resolves.\<close>

definition connects :: "json \<Rightarrow> json \<Rightarrow> failure option" where
  "connects url token = None"

definition sample_token_response :: json where
  "sample_token_response =
     JObj [(''token'', JStr ''jwt''), (''url'', JStr ''wss://livekit.example''),
           (''room_id'', JStr ''r2''), (''identity'', JStr ''user_1''),
           (''expires_at'', JStr ''2025-01-01T00:00:00Z'')]"

definition sample_request :: TransferRequest where
  "sample_request =
     \<lparr>tr_targetAgentId = JStr ''agent-b'', tr_callSummary = JUndefined, tr_roomId = JStr ''r2''\<rparr>"

text \<open>An optional string property as a list of fields: nothing when it is omitted.\<close>

definition opt_field :: "string \<Rightarrow> string option \<Rightarrow> (string \<times> json) list" where
  "opt_field k v = (case v of None \<Rightarrow> [] | Some s \<Rightarrow> [(k, JStr s)])"

section \<open>Theorems\<close>

subsection \<open>Auxiliary facts about the client\<close>

lemma issued_sel [simp]:
  "req_url (issued u m b) = u" "init_method (req_init (issued u m b)) = m"
  "init_body (req_init (issued u m b)) = b"
  "init_headers (req_init (issued u m b)) = [(''Content-Type'', ''application/json'')]"
  by (simp_all add: issued_def)

lemma stringify_fields_keys: "fst ` set (stringify_fields kvs) \<subseteq> fst ` set kvs"
  by (induction kvs) auto

lemma map_of_stringify_fields:
  "distinct (map fst kvs) \<Longrightarrow>
   map_of (stringify_fields kvs) k =
     (case map_of kvs k of
        None \<Rightarrow> None
      | Some v \<Rightarrow> if v = JUndefined then None else Some (stringify v))"
proof (induction kvs)
  case Nil
  then show ?case by simp
next
  case (Cons kv kvs)
  have absent: "fst kv \<notin> fst ` set (stringify_fields kvs)"
    using Cons.prems stringify_fields_keys [of kvs] by auto
  then have "map_of (stringify_fields kvs) (fst kv) = None"
    by (simp add: map_of_eq_None_iff)
  with Cons show ?case
    by (cases kv) (auto split: option.splits)
qed

lemma field_stringify_obj:
  "distinct (map fst kvs) \<Longrightarrow>
   field (stringify (JObj kvs)) k =
     (case map_of kvs k of
        None \<Rightarrow> None
      | Some v \<Rightarrow> if v = JUndefined then None else Some (stringify v))"
  by (simp add: map_of_stringify_fields)

lemma room_matches_typed: "is_room r \<Longrightarrow> room_matches n r = Inr (is_match n r)"
  by (cases r) (auto simp: room_matches_def is_match_def split: option.splits json.splits)

lemma array_find_rooms:
  "\<forall>r\<in>set xs. is_room r \<Longrightarrow>
   array_find (room_matches n) xs = Inr (case List.find (is_match n) xs of None \<Rightarrow> JUndefined | Some r \<Rightarrow> r)"
  by (induction xs) (auto simp: room_matches_typed)

lemma spread_default: "spread defaultHeaders [] = [(''Content-Type'', ''application/json'')]"
  by (simp add: spread_def defaultHeaders_def)

lemma request_issued:
  "init_headers options = [] \<Longrightarrow>
   request baseUrl net endpoint options =
     ([issued (baseUrl @ endpoint) (init_method options) (init_body options)],
      case net (issued (baseUrl @ endpoint) (init_method options) (init_body options)) of
        Inl e \<Rightarrow> Inl e | Inr response \<Rightarrow> handleResponse response)"
  by (cases options) (simp add: request_def issued_def Let_def spread_default)

lemma handle_json_success: "json_success response v \<Longrightarrow> handleResponse response = Inr v"
  by (auto simp: json_success_def json_content_type_def handleResponse_def split: option.splits)

lemma listRooms_issued:
  "listRooms baseUrl net =
     ([issued (baseUrl @ ''/api/rooms/'') None None],
      case net (issued (baseUrl @ ''/api/rooms/'') None None) of
        Inl e \<Rightarrow> Inl e | Inr response \<Rightarrow> handleResponse response)"
  by (simp add: listRooms_def request_issued no_options_def)

subsection \<open>Finding a room by name\<close>

text \<open>
  C4: when the room-listing endpoint answers with a list of rooms, \<open>findRoomByName n\<close>
  returns a room of that list whose \<open>room_name\<close> is exactly \<open>n\<close> and whose \<open>is_active\<close> is
  true whenever the list has such a room (the first one), and \<open>undefined\<close> when it has
  none; it never returns an inactive room or a room of another name.
\<close>

theorem findRoomByName_finds:
  assumes "net (issued (baseUrl @ ''/api/rooms/'') None None) = Inr response"
      and "json_success response (JArr rooms)"
      and "\<forall>r\<in>set rooms. is_room r"
  shows "((\<exists>r\<in>set rooms. is_match n r) \<longrightarrow>
            (\<exists>r\<in>set rooms. is_match n r \<and> snd (findRoomByName baseUrl net n) = Inr r)) \<and>
         ((\<forall>r\<in>set rooms. \<not> is_match n r) \<longrightarrow>
            snd (findRoomByName baseUrl net n) = Inr JUndefined) \<and>
         (\<forall>v. snd (findRoomByName baseUrl net n) = Inr v \<longrightarrow>
            v = JUndefined \<or> (v \<in> set rooms \<and> is_match n v)) \<and>
         snd (findRoomByName baseUrl net n) =
           Inr (case List.find (is_match n) rooms of None \<Rightarrow> JUndefined | Some r \<Rightarrow> r)"
proof -
  have "listRooms baseUrl net = ([issued (baseUrl @ ''/api/rooms/'') None None], Inr (JArr rooms))"
    using assms(1,2) by (simp add: listRooms_issued handle_json_success)
  then have res: "snd (findRoomByName baseUrl net n) =
        Inr (case List.find (is_match n) rooms of None \<Rightarrow> JUndefined | Some r \<Rightarrow> r)"
    using assms(3) by (simp add: findRoomByName_def find_in_rooms_def array_find_rooms)
  show ?thesis
  proof (cases "List.find (is_match n) rooms")
    case None
    then have "\<forall>r\<in>set rooms. \<not> is_match n r" by (simp add: find_None_iff)
    with None res show ?thesis by auto
  next
    case (Some r)
    then have "r \<in> set rooms" "is_match n r"
      by (auto simp: find_Some_iff)
    with Some res show ?thesis by auto
  qed
qed

theorem findRoomByName_finds_witness:
  "json_success (ok_json (JArr sample_rooms)) (JArr sample_rooms) \<and>
   list_all is_room sample_rooms \<and>
   snd (findRoomByName ''http://localhost:8000'' (always (ok_json (JArr sample_rooms))) ''call-123'')
     = Inr (JObj [(''room_id'', JStr ''r2''), (''room_name'', JStr ''call-123''), (''is_active'', JBool True)]) \<and>
   snd (findRoomByName ''http://localhost:8000'' (always (ok_json (JArr sample_rooms))) ''call-789'')
     = Inr JUndefined"
proof -
  let ?net = "always (ok_json (JArr sample_rooms))"
  have h1: "?net (issued (''http://localhost:8000'' @ ''/api/rooms/'') None None)
              = Inr (ok_json (JArr sample_rooms))"
    by (simp add: always_def)
  have h2: "json_success (ok_json (JArr sample_rooms)) (JArr sample_rooms)"
    by (simp add: json_success_def ok_json_def json_content_type_def)
  have h3: "\<forall>r\<in>set sample_rooms. is_room r"
    by (simp add: sample_rooms_def)
  note t = findRoomByName_finds [where net = ?net and baseUrl = "''http://localhost:8000''"
      and response = "ok_json (JArr sample_rooms)" and rooms = sample_rooms, OF h1 h2 h3]
  have a: "snd (findRoomByName ''http://localhost:8000'' ?net ''call-123'')
     = Inr (JObj [(''room_id'', JStr ''r2''), (''room_name'', JStr ''call-123''), (''is_active'', JBool True)])"
    using t [of "''call-123''"] by (simp add: sample_rooms_def is_match_def)
  have b: "snd (findRoomByName ''http://localhost:8000'' ?net ''call-789'') = Inr JUndefined"
    using t [of "''call-789''"] by (simp add: sample_rooms_def is_match_def)
  from h2 h3 a b show ?thesis by (simp add: list_all_iff)
qed

subsection \<open>Holding a call\<close>

text \<open>
  C7: for every call id and every hold flag, \<open>holdCall\<close> issues one POST to
  \<open>/api/calls/{callId}/hold\<close> whose JSON body is \<open>{hold: flag}\<close>; an omitted flag is
  \<open>true\<close>; the promise settles with what the response handling of the client yields for
  the response, nothing added, so that a JSON response reaches the caller unchanged. The
  wrapper \<open>api.calls.hold\<close> does the same.
\<close>

theorem holdCall_posts_flag:
  "fst (holdCall baseUrl net callId (Some flag)) =
     [issued (baseUrl @ ''/api/calls/'' @ callId @ ''/hold'') (Some ''POST'')
        (Some (JObj [(''hold'', JBool flag)]))] \<and>
   holdCall baseUrl net callId None = holdCall baseUrl net callId (Some True) \<and>
   snd (holdCall baseUrl net callId (Some flag)) =
     (case net (issued (baseUrl @ ''/api/calls/'' @ callId @ ''/hold'') (Some ''POST'')
                  (Some (JObj [(''hold'', JBool flag)]))) of
        Inl e \<Rightarrow> Inl e
      | Inr response \<Rightarrow> handleResponse response) \<and>
   (\<forall>response v.
      net (issued (baseUrl @ ''/api/calls/'' @ callId @ ''/hold'') (Some ''POST'')
             (Some (JObj [(''hold'', JBool flag)]))) = Inr response \<and> json_success response v
      \<longrightarrow> snd (holdCall baseUrl net callId (Some flag)) = Inr v) \<and>
   api_calls_hold baseUrl net callId (Some flag) = holdCall baseUrl net callId (Some flag) \<and>
   api_calls_hold baseUrl net callId None = holdCall baseUrl net callId (Some True)"
  by (simp add: holdCall_def api_calls_hold_def request_issued with_body_def handle_json_success)

theorem holdCall_posts_flag_witness:
  "holdCall ''http://localhost:8000'' (always (ok_json (JObj [(''status'', JStr ''held'')]))) ''call-123'' None =
     ([issued (''http://localhost:8000'' @ ''/api/calls/'' @ ''call-123'' @ ''/hold'') (Some ''POST'')
         (Some (JObj [(''hold'', JBool True)]))],
      Inr (JObj [(''status'', JStr ''held'')]))"
proof -
  let ?v = "JObj [(''status'', JStr ''held'')]"
  let ?net = "always (ok_json ?v)"
  let ?req = "issued (''http://localhost:8000'' @ ''/api/calls/'' @ ''call-123'' @ ''/hold'') (Some ''POST'')
         (Some (JObj [(''hold'', JBool True)]))"
  note t = holdCall_posts_flag [of "''http://localhost:8000''" ?net "''call-123''" True]
  have n: "?net ?req = Inr (ok_json ?v)" by (simp add: always_def)
  have j: "json_success (ok_json ?v) ?v"
    by (simp add: json_success_def ok_json_def json_content_type_def)
  from t have a: "fst (holdCall ''http://localhost:8000'' ?net ''call-123'' (Some True)) = [?req]"
    by blast
  from t n j have b: "snd (holdCall ''http://localhost:8000'' ?net ''call-123'' (Some True)) = Inr ?v"
    by blast
  from t have c: "holdCall ''http://localhost:8000'' ?net ''call-123'' None
                  = holdCall ''http://localhost:8000'' ?net ''call-123'' (Some True)"
    by blast
  from a b c show ?thesis by (simp add: prod_eq_iff)
qed

subsection \<open>The convenience wrappers\<close>

lemma create_request:
  "fst (api_rooms_create baseUrl net roomName options) =
     [issued (baseUrl @ ''/api/rooms/create'') (Some ''POST'')
        (Some (JObj [(''room_name'', JStr roomName),
                     (''room_type'', JStr (case given_roomType options of
                                             None \<Rightarrow> ''call''
                                           | Some s \<Rightarrow> if s = [] then ''call'' else s)),
                     (''max_participants'', JNum (case given_maxParticipants options of
                                             None \<Rightarrow> 10
                                           | Some m \<Rightarrow> if m = 0 then 10 else m))]))]"
proof -
  have rt: "js_or (case options of None \<Rightarrow> JUndefined | Some opts \<Rightarrow> opt_str (co_roomType opts))
              (JStr ''call'') =
            JStr (case given_roomType options of
                    None \<Rightarrow> ''call'' | Some s \<Rightarrow> if s = [] then ''call'' else s)"
    by (simp add: given_roomType_def js_or_def split: option.splits)
  have mp: "js_or (case options of None \<Rightarrow> JUndefined | Some opts \<Rightarrow> opt_num (co_maxParticipants opts))
              (JNum 10) =
            JNum (case given_maxParticipants options of
                    None \<Rightarrow> 10 | Some m \<Rightarrow> if m = 0 then 10 else m)"
    by (simp add: given_maxParticipants_def js_or_def split: option.splits)
  show ?thesis
    unfolding api_rooms_create_def createRoom_def
    by (simp add: request_issued with_body_def rt mp)
qed

lemma getToken_request:
  "fst (api_participants_getToken baseUrl net roomId identity name options) =
     [issued (baseUrl @ ''/api/participants/token'') (Some ''POST'')
        (Some (stringify (JObj
           [(''room_id'', roomId), (''identity'', identity), (''name'', name),
            (''role'', JStr (case given_role options of
                               None \<Rightarrow> ''caller'' | Some s \<Rightarrow> if s = [] then ''caller'' else s)),
            (''metadata'', case options of None \<Rightarrow> JUndefined | Some opts \<Rightarrow> to_metadata opts)])))]"
proof -
  have r: "js_or (case options of None \<Rightarrow> JUndefined | Some opts \<Rightarrow> opt_str (to_role opts))
              (JStr ''caller'') =
            JStr (case given_role options of
                    None \<Rightarrow> ''caller'' | Some s \<Rightarrow> if s = [] then ''caller'' else s)"
    by (simp add: given_role_def js_or_def split: option.splits)
  show ?thesis
    unfolding api_participants_getToken_def generateJoinToken_def join_token_object_def
    by (simp add: request_issued with_body_def r del: stringify.simps)
qed

lemma getToken_role:
  "sent_field (api_participants_getToken baseUrl net roomId identity name options) ''role'' =
     Some (JStr (case given_role options of
                   None \<Rightarrow> ''caller'' | Some s \<Rightarrow> if s = [] then ''caller'' else s))"
  unfolding sent_field_def bodies_def getToken_request
  by (simp add: field_stringify_obj del: stringify.simps) simp

text \<open>
  C10: the wrappers send complete bodies. Every request of \<open>api.rooms.create\<close> carries
  \<open>room_type\<close> and \<open>max_participants\<close>, which are \<open>call\<close> and \<open>10\<close> when the caller omits
  them (and when the caller gives the empty string or zero), the caller's values
  otherwise; every request of \<open>api.participants.getToken\<close> carries \<open>role\<close>, which is
  \<open>caller\<close> when the caller omits it.
\<close>

theorem wrappers_send_complete_bodies:
  "fst (api_rooms_create baseUrl net roomName options) =
     [issued (baseUrl @ ''/api/rooms/create'') (Some ''POST'')
        (Some (JObj [(''room_name'', JStr roomName),
                     (''room_type'', JStr (case given_roomType options of
                                             None \<Rightarrow> ''call''
                                           | Some s \<Rightarrow> if s = [] then ''call'' else s)),
                     (''max_participants'', JNum (case given_maxParticipants options of
                                             None \<Rightarrow> 10
                                           | Some m \<Rightarrow> if m = 0 then 10 else m))]))] \<and>
   sent_field (api_rooms_create baseUrl net roomName options) ''room_type'' =
     Some (JStr (case given_roomType options of
                   None \<Rightarrow> ''call'' | Some s \<Rightarrow> if s = [] then ''call'' else s)) \<and>
   sent_field (api_rooms_create baseUrl net roomName options) ''max_participants'' =
     Some (JNum (case given_maxParticipants options of
                   None \<Rightarrow> 10 | Some m \<Rightarrow> if m = 0 then 10 else m)) \<and>
   length (fst (api_participants_getToken baseUrl net roomId identity name toptions)) = 1 \<and>
   sent_field (api_participants_getToken baseUrl net roomId identity name toptions) ''role'' =
     Some (JStr (case given_role toptions of
                   None \<Rightarrow> ''caller'' | Some s \<Rightarrow> if s = [] then ''caller'' else s))"
proof -
  have a: "fst (api_rooms_create baseUrl net roomName options) =
     [issued (baseUrl @ ''/api/rooms/create'') (Some ''POST'')
        (Some (JObj [(''room_name'', JStr roomName),
                     (''room_type'', JStr (case given_roomType options of
                                             None \<Rightarrow> ''call''
                                           | Some s \<Rightarrow> if s = [] then ''call'' else s)),
                     (''max_participants'', JNum (case given_maxParticipants options of
                                             None \<Rightarrow> 10
                                           | Some m \<Rightarrow> if m = 0 then 10 else m))]))]"
    by (rule create_request)
  have b: "sent_field (api_rooms_create baseUrl net roomName options) ''room_type'' =
     Some (JStr (case given_roomType options of
                   None \<Rightarrow> ''call'' | Some s \<Rightarrow> if s = [] then ''call'' else s))"
    by (simp add: sent_field_def bodies_def create_request)
  have c: "sent_field (api_rooms_create baseUrl net roomName options) ''max_participants'' =
     Some (JNum (case given_maxParticipants options of
                   None \<Rightarrow> 10 | Some m \<Rightarrow> if m = 0 then 10 else m))"
    by (simp add: sent_field_def bodies_def create_request)
  have d: "length (fst (api_participants_getToken baseUrl net roomId identity name toptions)) = 1"
    by (simp add: getToken_request)
  from a b c d getToken_role show ?thesis by blast
qed

theorem wrappers_send_complete_bodies_witness:
  "sent_field (api_rooms_create ''http://localhost:8000'' offline ''call-123'' None) ''room_type''
     = Some (JStr ''call'') \<and>
   sent_field (api_rooms_create ''http://localhost:8000'' offline ''call-123'' None) ''max_participants''
     = Some (JNum 10) \<and>
   sent_field (api_rooms_create ''http://localhost:8000'' offline ''call-123''
                 (Some \<lparr>co_roomType = Some ''consult'', co_maxParticipants = None\<rparr>)) ''room_type''
     = Some (JStr ''consult'') \<and>
   sent_field (api_participants_getToken ''http://localhost:8000'' offline
                 (JStr ''r2'') (JStr ''user_1'') (JStr ''Ann'') None) ''role''
     = Some (JStr ''caller'')"
  using wrappers_send_complete_bodies [of "''http://localhost:8000''" offline "''call-123''" None
          "JStr ''r2''" "JStr ''user_1''" "JStr ''Ann''" None]
        wrappers_send_complete_bodies [of "''http://localhost:8000''" offline "''call-123''"
          "Some \<lparr>co_roomType = Some ''consult'', co_maxParticipants = None\<rparr>"
          "JStr ''r2''" "JStr ''user_1''" "JStr ''Ann''" None]
  by (simp add: given_roomType_def given_maxParticipants_def given_role_def)

subsection \<open>One fetch for each request, and how a response is delivered\<close>

lemma handle_not_ok:
  assumes "\<not> resp_ok response"
  shows "\<exists>d. handleResponse response =
           Inl (ApiError (spec_error_message response) (resp_status response) d)"
proof (cases "resp_json response")
  case (Inl e)
  with assms show ?thesis
    by (simp add: handleResponse_def read_error_body_def spec_error_message_def
          usable_field_def default_error_message_def)
next
  case (Inr errorData)
  show ?thesis
  proof (cases errorData)
    case (JObj kvs)
    with Inr assms show ?thesis
      by (auto simp: handleResponse_def read_error_body_def spec_error_message_def
            usable_field_def default_error_message_def js_or_def split: option.splits)
  qed (use Inr assms in \<open>simp_all add: handleResponse_def read_error_body_def
         spec_error_message_def usable_field_def default_error_message_def js_or_def\<close>)
qed

lemma handle_non_json:
  "resp_ok response \<Longrightarrow> \<not> json_content_type (resp_content_type response) \<Longrightarrow>
   handleResponse response = Inr (JObj [])"
  by (auto simp: handleResponse_def json_content_type_def split: option.splits)

lemma request_shape:
  "\<exists>req. request baseUrl net endpoint options =
     ([req], case net req of Inl e \<Rightarrow> Inl e | Inr response \<Rightarrow> handleResponse response)"
  by (simp add: request_def Let_def)

lemma request_not_ok:
  assumes "fst (request baseUrl net endpoint options) = [req]" "net req = Inr response"
          "\<not> resp_ok response"
  shows "\<exists>d. snd (request baseUrl net endpoint options) =
           Inl (ApiError (spec_error_message response) (resp_status response) d)"
proof -
  obtain r where r: "request baseUrl net endpoint options =
     ([r], case net r of Inl e \<Rightarrow> Inl e | Inr response \<Rightarrow> handleResponse response)"
    using request_shape by blast
  with assms(1) have "r = req" by simp
  with r assms(2) have "snd (request baseUrl net endpoint options) = handleResponse response"
    by simp
  with handle_not_ok [OF assms(3)] show ?thesis by simp
qed

lemma request_non_json:
  assumes "fst (request baseUrl net endpoint options) = [req]" "net req = Inr response"
          "resp_ok response" "\<not> json_content_type (resp_content_type response)"
  shows "snd (request baseUrl net endpoint options) = Inr (JObj [])"
proof -
  obtain r where r: "request baseUrl net endpoint options =
     ([r], case net r of Inl e \<Rightarrow> Inl e | Inr response \<Rightarrow> handleResponse response)"
    using request_shape by blast
  with assms(1) have "r = req" by simp
  with r assms(2) have "snd (request baseUrl net endpoint options) = handleResponse response"
    by simp
  with handle_non_json [OF assms(3,4)] show ?thesis by simp
qed

lemma request_once: "length (fst (request baseUrl net endpoint options)) = 1"
  by (simp add: request_def Let_def)

lemma findRoomByName_fst: "fst (findRoomByName baseUrl net n) = fst (listRooms baseUrl net)"
  by (simp add: findRoomByName_def split: prod.splits sum.splits)

lemma findRoomByName_rejects:
  "snd (listRooms baseUrl net) = Inl e \<Longrightarrow> snd (findRoomByName baseUrl net n) = Inl e"
  by (cases "listRooms baseUrl net") (auto simp: findRoomByName_def)

lemma perform_as_request:
  "\<exists>endpoint options.
     fst (perform baseUrl net call) = fst (request baseUrl net endpoint options) \<and>
     (\<forall>e. snd (request baseUrl net endpoint options) = Inl e \<longrightarrow>
          snd (perform baseUrl net call) = Inl e)"
proof (cases call)
  case (FindRoomByName n)
  then show ?thesis
    using findRoomByName_fst [of baseUrl net n] findRoomByName_rejects [of baseUrl net _ n]
    unfolding listRooms_def by (metis perform.simps(4))
qed (auto simp: healthCheck_def createRoom_def listRooms_def transferCall_def
      completeConsultation_def generateJoinToken_def removeParticipant_def
      generateCallSummary_def getCallTranscript_def holdCall_def Let_def)

lemma perform_once: "length (fst (perform baseUrl net call)) = 1"
  using perform_as_request [of baseUrl net call] request_once by metis

lemma perform_not_ok:
  assumes "fst (perform baseUrl net call) = [req]" "net req = Inr response"
          "\<not> resp_ok response"
  shows "\<exists>d. snd (perform baseUrl net call) =
           Inl (ApiError (spec_error_message response) (resp_status response) d)"
proof -
  obtain endpoint options where
    f: "fst (perform baseUrl net call) = fst (request baseUrl net endpoint options)" and
    s: "\<forall>e. snd (request baseUrl net endpoint options) = Inl e \<longrightarrow>
          snd (perform baseUrl net call) = Inl e"
    using perform_as_request by blast
  from f assms(1) have "fst (request baseUrl net endpoint options) = [req]" by simp
  from request_not_ok [OF this assms(2,3)] s show ?thesis by auto
qed

text \<open>
  C5: every invocation of \<open>ApiClient.request\<close>, and so of every public method of the
  client, performs exactly one \<open>fetch\<close>, whatever the outcome: nothing is retried. When
  the response is not ok, the operation rejects with an error whose \<open>status\<close> is the HTTP
  status code and whose \<open>message\<close> is the \<open>detail\<close> field of the response body, else its
  \<open>message\<close> field, else the string \<open>HTTP {status}: {statusText}\<close>. When the response is ok
  and its content type is not JSON, the request resolves to the empty object.
\<close>

theorem request_once_and_rejects:
  "length (fst (request baseUrl net endpoint options)) = 1 \<and>
   length (fst (perform baseUrl net call)) = 1 \<and>
   (\<forall>req response.
      fst (request baseUrl net endpoint options) = [req] \<and> net req = Inr response \<and>
      \<not> resp_ok response \<longrightarrow>
      (\<exists>d. snd (request baseUrl net endpoint options) =
             Inl (ApiError (spec_error_message response) (resp_status response) d))) \<and>
   (\<forall>req response.
      fst (perform baseUrl net call) = [req] \<and> net req = Inr response \<and>
      \<not> resp_ok response \<longrightarrow>
      (\<exists>d. snd (perform baseUrl net call) =
             Inl (ApiError (spec_error_message response) (resp_status response) d))) \<and>
   (\<forall>req response.
      fst (request baseUrl net endpoint options) = [req] \<and> net req = Inr response \<and>
      resp_ok response \<and> \<not> json_content_type (resp_content_type response) \<longrightarrow>
      snd (request baseUrl net endpoint options) = Inr (JObj []))"
proof (intro conjI allI impI)
  show "length (fst (request baseUrl net endpoint options)) = 1"
    by (rule request_once)
  show "length (fst (perform baseUrl net call)) = 1"
    by (rule perform_once)
next
  fix req response
  assume "fst (request baseUrl net endpoint options) = [req] \<and> net req = Inr response \<and>
          \<not> resp_ok response"
  then show "\<exists>d. snd (request baseUrl net endpoint options) =
             Inl (ApiError (spec_error_message response) (resp_status response) d)"
    using request_not_ok [of baseUrl net endpoint options req response] by simp
next
  fix req response
  assume "fst (perform baseUrl net call) = [req] \<and> net req = Inr response \<and>
          \<not> resp_ok response"
  then show "\<exists>d. snd (perform baseUrl net call) =
             Inl (ApiError (spec_error_message response) (resp_status response) d)"
    using perform_not_ok [of baseUrl net call req response] by simp
next
  fix req response
  assume "fst (request baseUrl net endpoint options) = [req] \<and> net req = Inr response \<and>
          resp_ok response \<and> \<not> json_content_type (resp_content_type response)"
  then show "snd (request baseUrl net endpoint options) = Inr (JObj [])"
    using request_non_json [of baseUrl net endpoint options req response] by simp
qed

theorem request_once_and_rejects_witness:
  "length (fst (perform ''http://localhost:8000'' (always sample_conflict) (TransferCall sample_transfer))) = 1 \<and>
   (\<exists>d. snd (perform ''http://localhost:8000'' (always sample_conflict) (TransferCall sample_transfer)) =
          Inl (ApiError (JStr ''Transfer already in progress'') 409 d)) \<and>
   (\<exists>d. snd (perform ''http://localhost:8000'' (always sample_unavailable) (TransferCall sample_transfer)) =
          Inl (ApiError (JStr ''HTTP 503: Service Unavailable'') 503 d)) \<and>
   snd (request ''http://localhost:8000'' (always sample_no_content) ''/api/participants/user_1?room_id=r2''
          (with_method ''DELETE'')) = Inr (JObj [])"
proof -
  let ?b = "''http://localhost:8000''"
  let ?call = "TransferCall sample_transfer"
  obtain req where req: "fst (perform ?b (always sample_conflict) ?call) = [req]"
    by (simp add: transferCall_def request_def Let_def)
  obtain req2 where req2: "fst (perform ?b (always sample_unavailable) ?call) = [req2]"
    by (simp add: transferCall_def request_def Let_def)
  obtain req3 where req3: "fst (request ?b (always sample_no_content)
          ''/api/participants/user_1?room_id=r2'' (with_method ''DELETE'')) = [req3]"
    by (simp add: request_def Let_def)
  note t = request_once_and_rejects [of ?b "always sample_conflict"
             "''/api/participants/user_1?room_id=r2''" "with_method ''DELETE''" ?call]
  note t2 = request_once_and_rejects [of ?b "always sample_unavailable"
             "''/api/participants/user_1?room_id=r2''" "with_method ''DELETE''" ?call]
  note t3 = request_once_and_rejects [of ?b "always sample_no_content"
             "''/api/participants/user_1?room_id=r2''" "with_method ''DELETE''" ?call]
  have n1: "always sample_conflict req = Inr sample_conflict" by (simp add: always_def)
  have k1: "\<not> resp_ok sample_conflict" by (simp add: sample_conflict_def)
  have m1: "spec_error_message sample_conflict = JStr ''Transfer already in progress''"
    by (simp add: spec_error_message_def usable_field_def sample_conflict_def)
  have s1: "resp_status sample_conflict = 409" by (simp add: sample_conflict_def)
  have n2: "always sample_unavailable req2 = Inr sample_unavailable" by (simp add: always_def)
  have k2: "\<not> resp_ok sample_unavailable" by (simp add: sample_unavailable_def)
  have m2: "spec_error_message sample_unavailable = JStr ''HTTP 503: Service Unavailable''"
    by (simp add: spec_error_message_def usable_field_def sample_unavailable_def
          show_nat.simps digit_char_def)
  have s2: "resp_status sample_unavailable = 503" by (simp add: sample_unavailable_def)
  have n3: "always sample_no_content req3 = Inr sample_no_content" by (simp add: always_def)
  have k3: "resp_ok sample_no_content \<and> \<not> json_content_type (resp_content_type sample_no_content)"
    by (simp add: sample_no_content_def json_content_type_def)
  from t have a: "length (fst (perform ?b (always sample_conflict) ?call)) = 1" by blast
  from t req n1 k1 have "\<exists>d. snd (perform ?b (always sample_conflict) ?call) =
       Inl (ApiError (spec_error_message sample_conflict) (resp_status sample_conflict) d)"
    by blast
  then have b: "\<exists>d. snd (perform ?b (always sample_conflict) ?call) =
       Inl (ApiError (JStr ''Transfer already in progress'') 409 d)"
    by (simp only: m1 s1)
  from t2 req2 n2 k2 have "\<exists>d. snd (perform ?b (always sample_unavailable) ?call) =
       Inl (ApiError (spec_error_message sample_unavailable) (resp_status sample_unavailable) d)"
    by blast
  then have c: "\<exists>d. snd (perform ?b (always sample_unavailable) ?call) =
       Inl (ApiError (JStr ''HTTP 503: Service Unavailable'') 503 d)"
    by (simp only: m2 s2)
  from t3 req3 n3 k3 have d: "snd (request ?b (always sample_no_content)
          ''/api/participants/user_1?room_id=r2'' (with_method ''DELETE'')) = Inr (JObj [])"
    by blast
  from a b c d show ?thesis by blast
qed

subsection \<open>Initiating a transfer from the hook\<close>

lemma js_or_fallback_not_null: "truthy b \<Longrightarrow> js_or a b \<noteq> JNull"
  by (cases a) (auto simp: js_or_def)

lemma hook_transfer_not_connected:
  "\<not> (hs_manager st \<and> truthy (hs_actualRoomId st)) \<Longrightarrow>
   hook_initiateTransfer baseUrl net targetAgentId st =
     ([], Inl (Error (JStr ''Not connected to a room'')), st)"
  by (auto simp: hook_initiateTransfer_def)

lemma hook_transfer_settled:
  assumes "hs_manager st" "truthy (hs_actualRoomId st)"
  shows "fst (hook_initiateTransfer baseUrl net targetAgentId st) =
           fst (api_rooms_transfer baseUrl net targetAgentId (hs_actualRoomId st) JUndefined) \<and>
         \<not> hs_isTransferring (snd (snd (hook_initiateTransfer baseUrl net targetAgentId st))) \<and>
         (hs_transferError (snd (snd (hook_initiateTransfer baseUrl net targetAgentId st))) \<noteq> JNull)
           = isl (snd (api_rooms_transfer baseUrl net targetAgentId (hs_actualRoomId st) JUndefined)) \<and>
         isl (fst (snd (hook_initiateTransfer baseUrl net targetAgentId st)))
           = isl (snd (api_rooms_transfer baseUrl net targetAgentId (hs_actualRoomId st) JUndefined))"
proof (cases "snd (api_rooms_transfer baseUrl net targetAgentId (hs_actualRoomId st) JUndefined)")
  case (Inl err)
  with assms show ?thesis
    by (simp add: hook_initiateTransfer_def Let_def js_or_fallback_not_null)
next
  case (Inr response)
  with assms show ?thesis
    by (simp add: hook_initiateTransfer_def Let_def)
qed

text \<open>
  C8: when \<open>actualRoomId\<close> is \<open>null\<close> (and, more generally, whenever the hook has no manager
  or no room), \<open>initiateTransfer\<close> of the hook throws \<open>Not connected to a room\<close>, issues no
  request and leaves the state, \<open>transferError\<close> included, as it was. When the hook has a
  manager and a room, it issues the requests of \<open>api.rooms.transfer\<close> and, once settled,
  \<open>isTransferring\<close> is false, \<open>transferError\<close> is non-null exactly when that request
  failed, and the call itself fails exactly then.
\<close>

theorem hook_initiateTransfer_settles:
  "(hs_actualRoomId st = JNull \<longrightarrow>
      hook_initiateTransfer baseUrl net targetAgentId st =
        ([], Inl (Error (JStr ''Not connected to a room'')), st)) \<and>
   (\<not> (hs_manager st \<and> truthy (hs_actualRoomId st)) \<longrightarrow>
      hook_initiateTransfer baseUrl net targetAgentId st =
        ([], Inl (Error (JStr ''Not connected to a room'')), st)) \<and>
   (hs_manager st \<and> truthy (hs_actualRoomId st) \<longrightarrow>
      fst (hook_initiateTransfer baseUrl net targetAgentId st) =
        fst (api_rooms_transfer baseUrl net targetAgentId (hs_actualRoomId st) JUndefined) \<and>
      \<not> hs_isTransferring (snd (snd (hook_initiateTransfer baseUrl net targetAgentId st))) \<and>
      (hs_transferError (snd (snd (hook_initiateTransfer baseUrl net targetAgentId st))) \<noteq> JNull)
        = isl (snd (api_rooms_transfer baseUrl net targetAgentId (hs_actualRoomId st) JUndefined)) \<and>
      isl (fst (snd (hook_initiateTransfer baseUrl net targetAgentId st)))
        = isl (snd (api_rooms_transfer baseUrl net targetAgentId (hs_actualRoomId st) JUndefined)))"
proof (intro conjI impI)
  assume "hs_actualRoomId st = JNull"
  then have "\<not> (hs_manager st \<and> truthy (hs_actualRoomId st))" by simp
  then show "hook_initiateTransfer baseUrl net targetAgentId st =
        ([], Inl (Error (JStr ''Not connected to a room'')), st)"
    by (rule hook_transfer_not_connected)
next
  assume "\<not> (hs_manager st \<and> truthy (hs_actualRoomId st))"
  then show "hook_initiateTransfer baseUrl net targetAgentId st =
        ([], Inl (Error (JStr ''Not connected to a room'')), st)"
    by (rule hook_transfer_not_connected)
qed (use hook_transfer_settled in blast)+

theorem hook_initiateTransfer_settles_witness:
  "hook_initiateTransfer ''http://localhost:8000'' offline (JStr ''agent-b'')
     (initial_state\<lparr>hs_transferError := JStr ''earlier failure''\<rparr>) =
     ([], Inl (Error (JStr ''Not connected to a room'')),
      initial_state\<lparr>hs_transferError := JStr ''earlier failure''\<rparr>) \<and>
   hs_isTransferring (snd (snd (hook_initiateTransfer ''http://localhost:8000''
      (always sample_conflict) (JStr ''agent-b'') joined_state))) = False \<and>
   hs_transferError (snd (snd (hook_initiateTransfer ''http://localhost:8000''
      (always sample_conflict) (JStr ''agent-b'') joined_state))) \<noteq> JNull \<and>
   hs_isTransferring (snd (snd (hook_initiateTransfer ''http://localhost:8000''
      (always (ok_json sample_transfer_response)) (JStr ''agent-b'') joined_state))) = False \<and>
   hs_transferError (snd (snd (hook_initiateTransfer ''http://localhost:8000''
      (always (ok_json sample_transfer_response)) (JStr ''agent-b'') joined_state))) = JNull"
proof -
  let ?b = "''http://localhost:8000''"
  let ?st0 = "initial_state\<lparr>hs_transferError := JStr ''earlier failure''\<rparr>"
  have g0: "hs_actualRoomId ?st0 = JNull" by (simp add: initial_state_def)
  have g1: "hs_manager joined_state \<and> truthy (hs_actualRoomId joined_state)"
    by (simp add: joined_state_def initial_state_def)
  have room: "hs_actualRoomId joined_state = JStr ''r2''"
    by (simp add: joined_state_def)
  have f1: "isl (snd (api_rooms_transfer ?b (always sample_conflict) (JStr ''agent-b'')
                   (JStr ''r2'') JUndefined))"
    by (simp add: api_rooms_transfer_def transferCall_def request_def Let_def always_def
          handleResponse_def sample_conflict_def read_error_body_def)
  have f2: "\<not> isl (snd (api_rooms_transfer ?b (always (ok_json sample_transfer_response))
                   (JStr ''agent-b'') (JStr ''r2'') JUndefined))"
    by (simp add: api_rooms_transfer_def transferCall_def request_def Let_def always_def
          handleResponse_def ok_json_def)
  from hook_initiateTransfer_settles [of ?st0 ?b offline "JStr ''agent-b''"] g0
  have a: "hook_initiateTransfer ?b offline (JStr ''agent-b'') ?st0 =
     ([], Inl (Error (JStr ''Not connected to a room'')), ?st0)"
    by blast
  from hook_initiateTransfer_settles [of joined_state ?b "always sample_conflict" "JStr ''agent-b''"]
       g1 f1 room
  have b: "hs_isTransferring (snd (snd (hook_initiateTransfer ?b
      (always sample_conflict) (JStr ''agent-b'') joined_state))) = False \<and>
   hs_transferError (snd (snd (hook_initiateTransfer ?b
      (always sample_conflict) (JStr ''agent-b'') joined_state))) \<noteq> JNull"
    by simp
  from hook_initiateTransfer_settles [of joined_state ?b "always (ok_json sample_transfer_response)"
         "JStr ''agent-b''"] g1 f2 room
  have c: "hs_isTransferring (snd (snd (hook_initiateTransfer ?b
      (always (ok_json sample_transfer_response)) (JStr ''agent-b'') joined_state))) = False \<and>
   hs_transferError (snd (snd (hook_initiateTransfer ?b
      (always (ok_json sample_transfer_response)) (JStr ''agent-b'') joined_state))) = JNull"
    by simp
  from a b c show ?thesis by blast
qed

subsection \<open>Data messages received by the manager\<close>

lemma get_prop_is: "(get_prop v k = Inr (JStr s)) = (field v k = Some (JStr s))"
  by (cases v) (auto split: option.splits)

lemma get_prop_object:
  "get_prop (JObj kvs) k = Inr (case field (JObj kvs) k of None \<Rightarrow> JUndefined | Some t \<Rightarrow> t)"
  by simp

lemma dataReceived_calls:
  "ho_calls (dataReceived parse cb payload sender) =
     (case parse payload of
        Inl e \<Rightarrow> []
      | Inr data \<Rightarrow>
          (case cb of
             None \<Rightarrow> []
           | Some callback \<Rightarrow>
               if field data ''type'' = Some (JStr ''transcript'')
               then [(case field data ''text'' of None \<Rightarrow> JUndefined | Some t \<Rightarrow> t,
                      case sender of
                        None \<Rightarrow> ''Unknown''
                      | Some p \<Rightarrow> if p_identity p = [] then ''Unknown'' else p_identity p)]
               else []))"
proof (cases "parse payload")
  case (Inl e)
  then show ?thesis by (simp add: dataReceived_def dataReceived_try_def)
next
  case (Inr data)
  show ?thesis
  proof (cases data)
    case (JObj kvs)
    with Inr show ?thesis
      by (cases cb)
         (auto simp: dataReceived_def dataReceived_try_def speaker_of_def
            split: option.splits)
  qed (use Inr in \<open>auto simp: dataReceived_def dataReceived_try_def split: option.splits\<close>)
qed

lemma dataReceived_never_throws: "ho_thrown (dataReceived parse cb payload sender) = None"
  by (simp add: dataReceived_def split: prod.splits option.splits)

lemma dataReceived_parse_failure:
  "parse payload = Inl e \<Longrightarrow>
   dataReceived parse cb payload sender = \<lparr>ho_calls = [], ho_logged = [e], ho_thrown = None\<rparr>"
  by (simp add: dataReceived_def dataReceived_try_def)

text \<open>
  C9 (amended): for every payload received by \<open>LiveKitManager\<close>, the transcript callback is
  invoked only when the payload decodes to JSON whose \<open>type\<close> field equals \<open>transcript\<close>
  (and then once, if a callback is registered), with \<open>data.text\<close> and with the sender's
  identity as speaker, or \<open>Unknown\<close> when the sender is absent or its identity is the empty
  string; a payload that fails to decode or parse is logged and ignored; no exception
  ever reaches the caller of the handler.
\<close>

theorem dataReceived_invokes_callback:
  "ho_calls (dataReceived parse cb payload sender) =
     (case parse payload of
        Inl e \<Rightarrow> []
      | Inr data \<Rightarrow>
          (case cb of
             None \<Rightarrow> []
           | Some callback \<Rightarrow>
               if field data ''type'' = Some (JStr ''transcript'')
               then [(case field data ''text'' of None \<Rightarrow> JUndefined | Some t \<Rightarrow> t,
                      case sender of
                        None \<Rightarrow> ''Unknown''
                      | Some p \<Rightarrow> if p_identity p = [] then ''Unknown'' else p_identity p)]
               else [])) \<and>
   ho_thrown (dataReceived parse cb payload sender) = None \<and>
   (\<forall>e. parse payload = Inl e \<longrightarrow>
      dataReceived parse cb payload sender = \<lparr>ho_calls = [], ho_logged = [e], ho_thrown = None\<rparr>)"
  using dataReceived_calls [of parse cb payload sender]
        dataReceived_never_throws [of parse cb payload sender]
        dataReceived_parse_failure [of parse payload _ cb sender]
  by blast

theorem dataReceived_invokes_callback_witness:
  "ho_calls (dataReceived sample_parse (Some quiet_callback) transcript_payload
      (Some \<lparr>p_identity = ''agent-a''\<rparr>)) = [(JStr ''hello'', ''agent-a'')] \<and>
   ho_calls (dataReceived sample_parse (Some quiet_callback) transcript_payload None)
      = [(JStr ''hello'', ''Unknown'')] \<and>
   ho_calls (dataReceived sample_parse (Some quiet_callback) chat_payload
      (Some \<lparr>p_identity = ''agent-a''\<rparr>)) = [] \<and>
   ho_calls (dataReceived sample_parse (Some quiet_callback) null_payload
      (Some \<lparr>p_identity = ''agent-a''\<rparr>)) = [] \<and>
   dataReceived sample_parse (Some quiet_callback) broken_payload (Some \<lparr>p_identity = ''agent-a''\<rparr>)
      = \<lparr>ho_calls = [], ho_logged = [SyntaxError ''Unexpected end of JSON input''], ho_thrown = None\<rparr>"
proof -
  let ?cb = "Some quiet_callback"
  let ?a = "Some \<lparr>p_identity = ''agent-a''\<rparr>"
  have p1: "sample_parse transcript_payload =
              Inr (JObj [(''type'', JStr ''transcript''), (''text'', JStr ''hello'')])"
    by (simp add: sample_parse_def)
  have p2: "sample_parse chat_payload = Inr (JObj [(''type'', JStr ''chat''), (''message'', JStr ''hi'')])"
    by (simp add: sample_parse_def transcript_payload_def chat_payload_def)
  have p3: "sample_parse null_payload = Inr JNull"
    by (simp add: sample_parse_def transcript_payload_def chat_payload_def null_payload_def)
  have p4: "sample_parse broken_payload = Inl (SyntaxError ''Unexpected end of JSON input'')"
    by (simp add: sample_parse_def transcript_payload_def chat_payload_def null_payload_def
          broken_payload_def)
  have a: "ho_calls (dataReceived sample_parse ?cb transcript_payload ?a) = [(JStr ''hello'', ''agent-a'')]"
    using dataReceived_invokes_callback [of sample_parse ?cb transcript_payload ?a]
    by (simp add: p1)
  have b: "ho_calls (dataReceived sample_parse ?cb transcript_payload None) = [(JStr ''hello'', ''Unknown'')]"
    using dataReceived_invokes_callback [of sample_parse ?cb transcript_payload None]
    by (simp add: p1)
  have c: "ho_calls (dataReceived sample_parse ?cb chat_payload ?a) = []"
    using dataReceived_invokes_callback [of sample_parse ?cb chat_payload ?a]
    by (simp add: p2)
  have d: "ho_calls (dataReceived sample_parse ?cb null_payload ?a) = []"
    using dataReceived_invokes_callback [of sample_parse ?cb null_payload ?a]
    by (simp add: p3)
  have e: "dataReceived sample_parse ?cb broken_payload ?a
      = \<lparr>ho_calls = [], ho_logged = [SyntaxError ''Unexpected end of JSON input''], ho_thrown = None\<rparr>"
    using dataReceived_invokes_callback [of sample_parse ?cb broken_payload ?a] p4
    by blast
  from a b c d e show ?thesis by blast
qed

text \<open>
  C9 as stated fails: a sender that is present but whose identity is the empty string is
  reported as \<open>Unknown\<close>, not under its identity.
\<close>

theorem dataReceived_empty_identity_counterexample:
  "ho_calls (dataReceived sample_parse (Some quiet_callback) transcript_payload
      (Some \<lparr>p_identity = []\<rparr>)) = [(JStr ''hello'', ''Unknown'')] \<and>
   p_identity \<lparr>p_identity = []\<rparr> \<noteq> ''Unknown''"
  by (simp add: dataReceived_def dataReceived_try_def sample_parse_def speaker_of_def
        quiet_callback_def)

subsection \<open>The transcript kept by the hook\<close>
















subsection \<open>Requests that initiate a transfer\<close>

text \<open>
  \<open>ApiClient.transferCall\<close> and, through it, the hook send the room and the target agent
  under \<open>room_id\<close> and \<open>target_agent_id\<close>, the summary under \<open>call_summary\<close> when there is
  one, and deliver a successful JSON response as it is.
\<close>

lemma transferCall_request:
  "fst (transferCall baseUrl net
          \<lparr>td_targetAgentId = JStr target, td_roomId = JStr room, td_callSummary = opt_str summary\<rparr>) =
     [issued (baseUrl @ ''/api/rooms/transfer'') (Some ''POST'')
        (Some (JObj ([(''room_id'', JStr room), (''target_agent_id'', JStr target)] @
                     opt_field ''call_summary'' summary)))]"
  by (cases summary) (simp_all add: transferCall_def request_issued with_body_def opt_field_def)

lemma transferCall_delivers:
  assumes "fst (transferCall baseUrl net data) = [req]" "net req = Inr response"
          "json_success response v"
  shows "snd (transferCall baseUrl net data) = Inr v"
  using assms
  by (simp add: transferCall_def request_issued with_body_def handle_json_success)

lemma hook_transfer_request:
  assumes "hs_manager st" "hs_actualRoomId st = JStr room" "room \<noteq> []"
  shows "fst (hook_initiateTransfer baseUrl net (JStr target) st) =
     [issued (baseUrl @ ''/api/rooms/transfer'') (Some ''POST'')
        (Some (JObj [(''room_id'', JStr room), (''target_agent_id'', JStr target)]))]"
  using assms
  by (simp add: hook_initiateTransfer_def Let_def api_rooms_transfer_def transferCall_def
        request_issued with_body_def split: sum.splits)

text \<open>
  C1: every transfer-initiating function POSTs to \<open>/api/rooms/transfer\<close> a JSON body that
  carries its arguments under \<open>room_id\<close>, \<open>target_agent_id\<close> and \<open>call_summary\<close>. The
  standalone \<open>initiateTransfer\<close> of \<open>lib/livekit.ts\<close> does not: it serialises its
  \<open>TransferRequest\<close> as it is, so the body has the fields \<open>targetAgentId\<close> and \<open>roomId\<close>
  and neither \<open>room_id\<close> nor \<open>target_agent_id\<close>, whereas \<open>ApiClient.transferCall\<close> renames
  the same arguments.
\<close>

theorem standalone_initiateTransfer_body:
  "bodies (initiateTransfer offline sample_request) =
     [Some (JObj [(''targetAgentId'', JStr ''agent-b''), (''roomId'', JStr ''r2'')])] \<and>
   sent_field (initiateTransfer offline sample_request) ''room_id'' = None \<and>
   sent_field (initiateTransfer offline sample_request) ''target_agent_id'' = None \<and>
   bodies (transferCall ''http://localhost:8000'' offline sample_transfer) =
     [Some (JObj [(''room_id'', JStr ''r2''), (''target_agent_id'', JStr ''agent-b'')])]"
  by (simp add: bodies_def sent_field_def initiateTransfer_def post_json_def Let_def
        transfer_request_object_def sample_request_def transferCall_def request_issued
        with_body_def sample_transfer_def)

subsection \<open>Requests for a join token\<close>

lemma generateJoinToken_request:
  "fst (generateJoinToken baseUrl net
          \<lparr>jt_room_id = JStr room, jt_identity = JStr identity, jt_name = JStr name,
           jt_role = opt_str role, jt_metadata = metadata\<rparr>) =
     [issued (baseUrl @ ''/api/participants/token'') (Some ''POST'')
        (Some (JObj ([(''room_id'', JStr room), (''identity'', JStr identity), (''name'', JStr name)] @
                     opt_field ''role'' role @
                     (if metadata = JUndefined then [] else [(''metadata'', stringify metadata)]))))]"
  by (cases role)
     (simp_all add: generateJoinToken_def join_token_object_def request_issued with_body_def
        opt_field_def)

lemma generateJoinToken_delivers:
  assumes "fst (generateJoinToken baseUrl net data) = [req]" "net req = Inr response"
          "json_success response v"
  shows "snd (generateJoinToken baseUrl net data) = Inr v"
  using assms
  by (simp add: generateJoinToken_def request_issued with_body_def handle_json_success)

lemma autoConnect_called:
  assumes "room \<noteq> []" "identity \<noteq> []" "name \<noteq> []"
  shows "fst (handleAutoConnect baseUrl net mc (Some room) (Some identity) (Some name) st) =
           fst (api_participants_getToken baseUrl net (JStr room) (JStr identity) (JStr name) None)"
  using assms by (simp add: handleAutoConnect_def Let_def split: sum.splits)

lemma getToken_default_request:
  "fst (api_participants_getToken baseUrl net (JStr room) (JStr identity) (JStr name) None) =
     [issued (baseUrl @ ''/api/participants/token'') (Some ''POST'')
        (Some (JObj [(''room_id'', JStr room), (''identity'', JStr identity), (''name'', JStr name),
                     (''role'', JStr ''caller'')]))]"
  by (simp add: api_participants_getToken_def generateJoinToken_def join_token_object_def
        request_issued with_body_def js_or_def)

lemma autoConnect_request:
  assumes "room \<noteq> []" "identity \<noteq> []" "name \<noteq> []"
  shows "fst (handleAutoConnect baseUrl net mc (Some room) (Some identity) (Some name) st) =
     [issued (baseUrl @ ''/api/participants/token'') (Some ''POST'')
        (Some (JObj [(''room_id'', JStr room), (''identity'', JStr identity), (''name'', JStr name),
                     (''role'', JStr ''caller'')]))]"
  using autoConnect_called [OF assms] getToken_default_request by simp

lemma connect_room: "hs_actualRoomId (connect mc url token st) = hs_actualRoomId st"
  by (simp add: connect_def Let_def split: option.splits)

lemma autoConnect_stores_room:
  assumes "room \<noteq> []" "identity \<noteq> []" "name \<noteq> []"
      and "fst (handleAutoConnect baseUrl net mc (Some room) (Some identity) (Some name) st) = [req]"
      and "net req = Inr response" "json_success response (JObj kvs)"
  shows "hs_actualRoomId (snd (handleAutoConnect baseUrl net mc (Some room) (Some identity) (Some name) st)) =
           (case field (JObj kvs) ''room_id'' of None \<Rightarrow> JUndefined | Some r \<Rightarrow> r)"
proof -
  have "req = issued (baseUrl @ ''/api/participants/token'') (Some ''POST'')
        (Some (JObj [(''room_id'', JStr room), (''identity'', JStr identity), (''name'', JStr name),
                     (''role'', JStr ''caller'')]))"
    using autoConnect_request [OF assms(1-3), of baseUrl net mc st] assms(4) by simp
  with assms(5,6) have "snd (api_participants_getToken baseUrl net (JStr room) (JStr identity) (JStr name) None)
        = Inr (JObj kvs)"
    by (simp add: api_participants_getToken_def generateJoinToken_def join_token_object_def
        request_issued with_body_def js_or_def handle_json_success)
  with assms(1-3) show ?thesis
    by (simp add: handleAutoConnect_def Let_def after_token_def connect_room)
qed

lemma getJoinToken_request:
  "fst (getJoinToken net (JStr room) (JStr identity) (JStr name)) =
     [issued ''/api/participants/token'' (Some ''POST'')
        (Some (JObj [(''roomId'', JStr room), (''identity'', JStr identity), (''name'', JStr name)]))]"
  by (simp add: getJoinToken_def post_json_def Let_def issued_def json_headers_def)

lemma getJoinToken_token_only:
  assumes "fst (getJoinToken net roomId identity name) = [req]" "net req = Inr response"
          "resp_ok response" "resp_json response = Inr v"
  shows "snd (getJoinToken net roomId identity name) = get_prop v ''token''"
  using assms by (simp add: getJoinToken_def Let_def)

lemma getJoinToken_target:
  "map req_url (fst (getJoinToken net roomId identity name)) = [''/api/participants/token''] \<and>
   map (\<lambda>r. init_method (req_init r)) (fst (getJoinToken net roomId identity name)) = [Some ''POST'']"
  by (simp add: getJoinToken_def post_json_def Let_def)

text \<open>
  C2 (amended): \<open>ApiClient.generateJoinToken\<close> and the auto-connect path of the hook POST
  to \<open>/api/participants/token\<close> a JSON body with the fields \<open>room_id\<close>, \<open>identity\<close> and
  \<open>name\<close>, plus \<open>role\<close> and \<open>metadata\<close> when given (the auto-connect path always sends the
  role \<open>caller\<close>), and a successful JSON response is delivered as it is: to the caller of
  \<open>generateJoinToken\<close>, and in the hook by storing its \<open>room_id\<close> as \<open>actualRoomId\<close>. The
  standalone \<open>getJoinToken\<close> POSTs to the same path and delivers only the \<open>token\<close> field
  of a successful response.
\<close>

theorem join_token_requests:
  "fst (generateJoinToken baseUrl net
          \<lparr>jt_room_id = JStr room, jt_identity = JStr identity, jt_name = JStr name,
           jt_role = opt_str role, jt_metadata = metadata\<rparr>) =
     [issued (baseUrl @ ''/api/participants/token'') (Some ''POST'')
        (Some (JObj ([(''room_id'', JStr room), (''identity'', JStr identity), (''name'', JStr name)] @
                     opt_field ''role'' role @
                     (if metadata = JUndefined then [] else [(''metadata'', stringify metadata)]))))] \<and>
   (\<forall>req response v.
      fst (generateJoinToken baseUrl net data) = [req] \<and> net req = Inr response \<and>
      json_success response v \<longrightarrow>
      snd (generateJoinToken baseUrl net data) = Inr v) \<and>
   (room \<noteq> [] \<and> identity \<noteq> [] \<and> name \<noteq> [] \<longrightarrow>
      fst (handleAutoConnect baseUrl net mc (Some room) (Some identity) (Some name) st) =
        [issued (baseUrl @ ''/api/participants/token'') (Some ''POST'')
           (Some (JObj [(''room_id'', JStr room), (''identity'', JStr identity),
                        (''name'', JStr name), (''role'', JStr ''caller'')]))] \<and>
      (\<forall>req response kvs.
         fst (handleAutoConnect baseUrl net mc (Some room) (Some identity) (Some name) st) = [req] \<and>
         net req = Inr response \<and> json_success response (JObj kvs) \<longrightarrow>
         hs_actualRoomId
           (snd (handleAutoConnect baseUrl net mc (Some room) (Some identity) (Some name) st)) =
           (case field (JObj kvs) ''room_id'' of None \<Rightarrow> JUndefined | Some r \<Rightarrow> r))) \<and>
   map req_url (fst (getJoinToken net roomId identityArg nameArg)) = [''/api/participants/token''] \<and>
   map (\<lambda>r. init_method (req_init r)) (fst (getJoinToken net roomId identityArg nameArg)) =
     [Some ''POST''] \<and>
   (\<forall>req response v.
      fst (getJoinToken net roomId identityArg nameArg) = [req] \<and> net req = Inr response \<and>
      resp_ok response \<and> resp_json response = Inr v \<longrightarrow>
      snd (getJoinToken net roomId identityArg nameArg) = get_prop v ''token'')"
proof (intro conjI allI impI)
  show "fst (generateJoinToken baseUrl net
          \<lparr>jt_room_id = JStr room, jt_identity = JStr identity, jt_name = JStr name,
           jt_role = opt_str role, jt_metadata = metadata\<rparr>) =
     [issued (baseUrl @ ''/api/participants/token'') (Some ''POST'')
        (Some (JObj ([(''room_id'', JStr room), (''identity'', JStr identity), (''name'', JStr name)] @
                     opt_field ''role'' role @
                     (if metadata = JUndefined then [] else [(''metadata'', stringify metadata)]))))]"
    by (rule generateJoinToken_request)
next
  fix req response v
  assume "fst (generateJoinToken baseUrl net data) = [req] \<and> net req = Inr response \<and>
      json_success response v"
  then show "snd (generateJoinToken baseUrl net data) = Inr v"
    using generateJoinToken_delivers [of baseUrl net data req response v] by simp
next
  assume "room \<noteq> [] \<and> identity \<noteq> [] \<and> name \<noteq> []"
  then show "fst (handleAutoConnect baseUrl net mc (Some room) (Some identity) (Some name) st) =
        [issued (baseUrl @ ''/api/participants/token'') (Some ''POST'')
           (Some (JObj [(''room_id'', JStr room), (''identity'', JStr identity),
                        (''name'', JStr name), (''role'', JStr ''caller'')]))]"
    using autoConnect_request [of room identity name baseUrl net mc st] by simp
next
  fix req response kvs
  assume "room \<noteq> [] \<and> identity \<noteq> [] \<and> name \<noteq> []"
     and "fst (handleAutoConnect baseUrl net mc (Some room) (Some identity) (Some name) st) = [req] \<and>
         net req = Inr response \<and> json_success response (JObj kvs)"
  then show "hs_actualRoomId
           (snd (handleAutoConnect baseUrl net mc (Some room) (Some identity) (Some name) st)) =
           (case field (JObj kvs) ''room_id'' of None \<Rightarrow> JUndefined | Some r \<Rightarrow> r)"
    using autoConnect_stores_room [of room identity name baseUrl net mc st req response kvs]
    by simp
next
  show "map req_url (fst (getJoinToken net roomId identityArg nameArg)) = [''/api/participants/token'']"
    using getJoinToken_target by simp
  show "map (\<lambda>r. init_method (req_init r)) (fst (getJoinToken net roomId identityArg nameArg)) =
     [Some ''POST'']"
    using getJoinToken_target by simp
next
  fix req response v
  assume "fst (getJoinToken net roomId identityArg nameArg) = [req] \<and> net req = Inr response \<and>
      resp_ok response \<and> resp_json response = Inr v"
  then show "snd (getJoinToken net roomId identityArg nameArg) = get_prop v ''token''"
    using getJoinToken_token_only [of net roomId identityArg nameArg req response v] by simp
qed

theorem join_token_requests_witness:
  "hs_actualRoomId (snd (handleAutoConnect ''http://localhost:8000''
      (always (ok_json sample_token_response)) connects
      (Some ''call-123'') (Some ''user_1'') (Some ''Ann'') (initial_state\<lparr>hs_manager := True\<rparr>)))
     = JStr ''r2'' \<and>
   snd (generateJoinToken ''http://localhost:8000'' (always (ok_json sample_token_response))
      \<lparr>jt_room_id = JStr ''r2'', jt_identity = JStr ''user_1'', jt_name = JStr ''Ann'',
       jt_role = opt_str (Some ''agent''), jt_metadata = JUndefined\<rparr>) = Inr sample_token_response \<and>
   fst (generateJoinToken ''http://localhost:8000'' (always (ok_json sample_token_response))
      \<lparr>jt_room_id = JStr ''r2'', jt_identity = JStr ''user_1'', jt_name = JStr ''Ann'',
       jt_role = opt_str (Some ''agent''), jt_metadata = JUndefined\<rparr>) =
     [issued (''http://localhost:8000'' @ ''/api/participants/token'') (Some ''POST'')
        (Some (JObj [(''room_id'', JStr ''r2''), (''identity'', JStr ''user_1''),
                     (''name'', JStr ''Ann''), (''role'', JStr ''agent'')]))] \<and>
   snd (getJoinToken (always (ok_json sample_token_response)) (JStr ''r2'') (JStr ''user_1'')
          (JStr ''Ann'')) = Inr (JStr ''jwt'')"
proof -
  let ?b = "''http://localhost:8000''"
  let ?net = "always (ok_json sample_token_response)"
  let ?data = "\<lparr>jt_room_id = JStr ''r2'', jt_identity = JStr ''user_1'', jt_name = JStr ''Ann'',
       jt_role = opt_str (Some ''agent''), jt_metadata = JUndefined\<rparr>"
  let ?st = "initial_state\<lparr>hs_manager := True\<rparr>"
  note t = join_token_requests [where baseUrl = ?b and net = ?net and room = "''call-123''"
      and identity = "''user_1''" and name = "''Ann''" and role = "Some ''agent''"
      and metadata = JUndefined and data = ?data and mc = connects and st = ?st
      and roomId = "JStr ''r2''" and identityArg = "JStr ''user_1''" and nameArg = "JStr ''Ann''"]
  note t2 = join_token_requests [where baseUrl = ?b and net = ?net and room = "''r2''"
      and identity = "''user_1''" and name = "''Ann''" and role = "Some ''agent''"
      and metadata = JUndefined and data = ?data and mc = connects and st = ?st
      and roomId = "JStr ''r2''" and identityArg = "JStr ''user_1''" and nameArg = "JStr ''Ann''"]
  have js: "json_success (ok_json sample_token_response) sample_token_response"
    by (simp add: json_success_def ok_json_def json_content_type_def)
  have obj: "sample_token_response = JObj [(''token'', JStr ''jwt''), (''url'', JStr ''wss://livekit.example''),
           (''room_id'', JStr ''r2''), (''identity'', JStr ''user_1''),
           (''expires_at'', JStr ''2025-01-01T00:00:00Z'')]"
    by (simp add: sample_token_response_def)
  have net: "\<And>req. ?net req = Inr (ok_json sample_token_response)"
    by (simp add: always_def)
  have ok: "resp_ok (ok_json sample_token_response) \<and>
            resp_json (ok_json sample_token_response) = Inr sample_token_response"
    by (simp add: ok_json_def)
  have ne: "''call-123'' \<noteq> [] \<and> ''user_1'' \<noteq> [] \<and> ''Ann'' \<noteq> []" by simp
  obtain r1 where r1: "fst (handleAutoConnect ?b ?net connects (Some ''call-123'') (Some ''user_1'')
                         (Some ''Ann'') ?st) = [r1]"
    using t ne by blast
  from t ne r1 net [of r1] js [unfolded obj]
  have "hs_actualRoomId (snd (handleAutoConnect ?b ?net connects (Some ''call-123'') (Some ''user_1'')
                         (Some ''Ann'') ?st)) =
        (case field (JObj [(''token'', JStr ''jwt''), (''url'', JStr ''wss://livekit.example''),
           (''room_id'', JStr ''r2''), (''identity'', JStr ''user_1''),
           (''expires_at'', JStr ''2025-01-01T00:00:00Z'')]) ''room_id'' of
           None \<Rightarrow> JUndefined | Some r \<Rightarrow> r)"
    unfolding obj by blast
  then have a: "hs_actualRoomId (snd (handleAutoConnect ?b ?net connects (Some ''call-123'')
                  (Some ''user_1'') (Some ''Ann'') ?st)) = JStr ''r2''"
    by simp
  from t2 have c: "fst (generateJoinToken ?b ?net ?data) =
     [issued (''http://localhost:8000'' @ ''/api/participants/token'') (Some ''POST'')
        (Some (JObj [(''room_id'', JStr ''r2''), (''identity'', JStr ''user_1''),
                     (''name'', JStr ''Ann''), (''role'', JStr ''agent'')]))]"
    by (simp add: opt_field_def)
  from t c net js have b: "snd (generateJoinToken ?b ?net ?data) = Inr sample_token_response"
    by blast
  obtain r3 where r3: "fst (getJoinToken ?net (JStr ''r2'') (JStr ''user_1'') (JStr ''Ann'')) = [r3]"
    by (simp add: getJoinToken_def Let_def)
  from t r3 net [of r3] ok
  have "snd (getJoinToken ?net (JStr ''r2'') (JStr ''user_1'') (JStr ''Ann''))
          = get_prop sample_token_response ''token''"
    by blast
  then have d: "snd (getJoinToken ?net (JStr ''r2'') (JStr ''user_1'') (JStr ''Ann'')) = Inr (JStr ''jwt'')"
    by (simp add: sample_token_response_def)
  from a b c d show ?thesis by blast
qed

text \<open>
  C2 as stated fails: the standalone \<open>getJoinToken\<close> resolves to the bare token, not to the
  record with the fields \<open>token\<close>, \<open>url\<close>, \<open>room_id\<close>, \<open>identity\<close> and \<open>expires_at\<close>.
\<close>

theorem getJoinToken_counterexample:
  "snd (getJoinToken (always (ok_json sample_token_response)) (JStr ''r2'') (JStr ''user_1'')
          (JStr ''Ann'')) = Inr (JStr ''jwt'') \<and>
   Inr (JStr ''jwt'') \<noteq> (Inr sample_token_response :: failure + json) \<and>
   field (JStr ''jwt'') ''url'' = None"
  by (simp add: getJoinToken_def Let_def always_def ok_json_def sample_token_response_def)

subsection \<open>At most one transfer in flight for each room\<close>

lemma terminal_no_next: "terminal s \<Longrightarrow> next_states s = []"
  by (cases s) simp_all

lemma filter_map_length:
  assumes "\<And>x. P (f x) \<Longrightarrow> Q x"
  shows "length (filter P (map f xs)) \<le> length (filter Q xs)"
  using assms by (induction xs) (auto simp: le_Suc_eq)

lemma in_flight_advance: "length (in_flight (advance reg tid s) room) \<le> length (in_flight reg room)"
  unfolding in_flight_def advance_def
  by (rule filter_map_length) (auto simp: terminal_no_next split: if_splits)

lemma in_flight_append:
  "in_flight (reg @ [t]) room =
     in_flight reg room @ (if t_source_room t = room \<and> \<not> terminal (t_state t) then [t] else [])"
  by (simp add: in_flight_def)

lemma initiate_accepts:
  "in_flight reg room = [] \<Longrightarrow>
   initiate reg room a b =
     Inr (length reg,
          reg @ [\<lparr>t_id = length reg, t_source_room = room, t_initiator = a, t_target = b,
                   t_state = ConsultPending\<rparr>])"
  by (simp add: initiate_def)

lemma initiate_rejects:
  "in_flight reg room \<noteq> [] \<Longrightarrow> initiate reg room a b = Inl TransferConflict"
  by (simp add: initiate_def)

lemma in_flight_initiate:
  assumes "length (in_flight reg r) \<le> 1"
  shows "length (in_flight (apply_op reg (Initiate room a b)) r) \<le> 1"
proof (cases "in_flight reg room = []")
  case True
  then show ?thesis using assms
    by (auto simp: initiate_accepts in_flight_append)
next
  case False
  then show ?thesis using assms by (simp add: initiate_rejects)
qed

lemma in_flight_apply_op:
  assumes "length (in_flight reg r) \<le> 1"
  shows "length (in_flight (apply_op reg ev) r) \<le> 1"
proof (cases ev)
  case (Initiate room a b)
  then show ?thesis using in_flight_initiate [OF assms] by simp
next
  case (Advance tid s)
  then show ?thesis using in_flight_advance [of reg tid s r] assms by simp
qed

lemma in_flight_foldl:
  "length (in_flight reg r) \<le> 1 \<Longrightarrow> length (in_flight (foldl apply_op reg evs) r) \<le> 1"
proof (induction evs arbitrary: reg)
  case Nil
  then show ?case by simp
next
  case (Cons ev evs)
  from Cons.prems have "length (in_flight (apply_op reg ev) r) \<le> 1"
    by (rule in_flight_apply_op)
  then have "length (in_flight (foldl apply_op (apply_op reg ev) evs) r) \<le> 1"
    by (rule Cons.IH)
  then show ?case by simp
qed

lemma in_flight_run_ops: "length (in_flight (run_ops evs) r) \<le> 1"
  unfolding run_ops_def by (rule in_flight_foldl) (simp add: in_flight_def)

lemma race_all_rejected:
  "in_flight reg room \<noteq> [] \<Longrightarrow> race reg room cs = replicate (length cs) (Inl TransferConflict)"
  by (induction cs) (simp_all add: initiate_rejects)

lemma race_one_accepted:
  assumes "in_flight reg room = []" "cs \<noteq> []"
  shows "race reg room cs = Inr (length reg) # replicate (length cs - 1) (Inl TransferConflict)"
proof (cases cs)
  case Nil
  with assms show ?thesis by simp
next
  case (Cons c rest)
  let ?reg' = "reg @ [\<lparr>t_id = length reg, t_source_room = room, t_initiator = fst c,
                        t_target = snd c, t_state = ConsultPending\<rparr>]"
  have "in_flight ?reg' room \<noteq> []"
    by (simp add: in_flight_append)
  then have "race ?reg' room rest = replicate (length rest) (Inl TransferConflict)"
    by (rule race_all_rejected)
  with Cons assms(1) show ?thesis
    by (simp add: initiate_accepts)
qed

text \<open>
  C3: for every source room, at most one Transfer is in a non-terminal state at any
  instant, that is, after any sequence of operations on the registry; and when
  \<open>initiate()\<close> calls race on a room that has no Transfer in flight, exactly one of them
  succeeds and returns a transfer id, and every other one receives TransferConflict, in
  whatever order the calls are serialised. When the room has a Transfer in flight already,
  all of them receive TransferConflict.
\<close>

theorem at_most_one_transfer_in_flight:
  "length (in_flight (run_ops evs) room) \<le> 1 \<and>
   (in_flight (run_ops evs) room = [] \<and> calls \<noteq> [] \<longrightarrow>
      (\<exists>tid. race (run_ops evs) room calls =
               Inr tid # replicate (length calls - 1) (Inl TransferConflict))) \<and>
   (in_flight (run_ops evs) room \<noteq> [] \<longrightarrow>
      race (run_ops evs) room calls = replicate (length calls) (Inl TransferConflict))"
  using in_flight_run_ops [of evs room] race_one_accepted [of "run_ops evs" room calls]
        race_all_rejected [of "run_ops evs" room calls]
  by blast

theorem at_most_one_transfer_in_flight_witness:
  "race (run_ops [Initiate ''call-123'' ''agent-a'' ''agent-b'', Advance 0 Failed]) ''call-123''
     [(''agent-a'', ''agent-b''), (''agent-a'', ''agent-c'')] = [Inr 1, Inl TransferConflict] \<and>
   race (run_ops [Initiate ''call-123'' ''agent-a'' ''agent-b'', Advance 0 ConsultReady]) ''call-123''
     [(''agent-a'', ''agent-b''), (''agent-a'', ''agent-c'')] = [Inl TransferConflict, Inl TransferConflict]"
proof -
  let ?done = "run_ops [Initiate ''call-123'' ''agent-a'' ''agent-b'', Advance 0 Failed]"
  let ?busy = "run_ops [Initiate ''call-123'' ''agent-a'' ''agent-b'', Advance 0 ConsultReady]"
  let ?calls = "[(''agent-a'', ''agent-b''), (''agent-a'', ''agent-c'')]"
  have d: "?done = [\<lparr>t_id = 0, t_source_room = ''call-123'', t_initiator = ''agent-a'',
                      t_target = ''agent-b'', t_state = Failed\<rparr>]"
    by (simp add: run_ops_def initiate_def in_flight_def advance_def)
  have b: "?busy = [\<lparr>t_id = 0, t_source_room = ''call-123'', t_initiator = ''agent-a'',
                      t_target = ''agent-b'', t_state = ConsultReady\<rparr>]"
    by (simp add: run_ops_def initiate_def in_flight_def advance_def)
  have fd: "in_flight ?done ''call-123'' = []" unfolding d by (simp add: in_flight_def)
  have fb: "in_flight ?busy ''call-123'' \<noteq> []" unfolding b by (simp add: in_flight_def)
  from at_most_one_transfer_in_flight
         [of "[Initiate ''call-123'' ''agent-a'' ''agent-b'', Advance 0 Failed]" "''call-123''" ?calls] fd
  obtain tid where r: "race ?done ''call-123'' ?calls =
       Inr tid # replicate (length ?calls - 1) (Inl TransferConflict)"
    by blast
  have "race ?done ''call-123'' ?calls \<noteq> [] \<and> hd (race ?done ''call-123'' ?calls) = Inr 1"
    unfolding d by (simp add: initiate_def in_flight_def)
  with r have "tid = 1" by simp
  with r have x: "race ?done ''call-123'' ?calls = [Inr 1, Inl TransferConflict]"
    by simp
  from at_most_one_transfer_in_flight
         [of "[Initiate ''call-123'' ''agent-a'' ''agent-b'', Advance 0 ConsultReady]" "''call-123''" ?calls] fb
  have y: "race ?busy ''call-123'' ?calls = [Inl TransferConflict, Inl TransferConflict]"
    by (simp add: numeral_2_eq_2)
  from x y show ?thesis by blast
qed

end
